theory Spec2Isabelle
  imports Complex_Main "HOL-Library.Sublist" "HOL-Library.Multiset"
begin

section \<open>Python values and numbers\<close>

text \<open>
  The audit platform is written in Python. A float is modelled by the rational number
  (\<open>rat\<close>) that it denotes. The score formulas of \<open>app/core/rule_engine.py\<close> and of the
  crawler are evaluated as the interpreter does, in binary64 arithmetic: every product,
  sum and quotient is rounded to the nearest double (\<open>fl\<close>, below), and \<open>round(x, n)\<close>
  is \<open>float_round\<close>. The formulas of the prioritization engine are evaluated on the
  rationals themselves, with \<open>py_round\<close> for \<open>round\<close>. Lengths, counts and ranks (results
  of \<open>len\<close> and \<open>enumerate\<close>) are natural numbers; other Python integers are \<open>int\<close>.
  Strings are \<open>string\<close>; the library functions on strings are modelled for ASCII text.
\<close>

datatype py_exn =
    TypeError | AttributeError | ValueError | IndexError | ReError | NetworkError | ParserError
  | ZeroDivisionError

datatype pyflt = Finite rat | PosInf | NegInf | NaN

datatype pyval =
    PNone
  | PBool bool
  | PInt int
  | PFloat pyflt
  | PStr string
  | PList "pyval list"
  | PDict "(string \<times> pyval) list"

fun str_lt :: "string \<Rightarrow> string \<Rightarrow> bool" where
  "str_lt [] [] = False"
| "str_lt [] (y # ys) = True"
| "str_lt (x # xs) [] = False"
| "str_lt (x # xs) (y # ys) =
     ((of_char x :: nat) < of_char y \<or> (x = y \<and> str_lt xs ys))"

definition round_half_even :: "rat \<Rightarrow> int" where
  "round_half_even y =
     (let f = \<lfloor>y\<rfloor>; d = y - of_int f
      in if d < 1 / 2 then f else if 1 / 2 < d then f + 1
         else if even f then f else f + 1)"

definition py_round :: "rat \<Rightarrow> nat \<Rightarrow> rat" where
  "py_round x ndigits = of_int (round_half_even (x * 10 ^ ndigits)) / 10 ^ ndigits"

text \<open>
  Binary64 arithmetic. \<open>fl x\<close> is the double nearest to \<open>x\<close>, ties to the even
  significand: with \<open>e = \<lfloor>log\<^sub>2 |x|\<rfloor>\<close> the doubles around \<open>x\<close> are the multiples of
  \<open>2\<^sup>e\<^sup>-\<^sup>5\<^sup>2\<close>. Overflow and subnormal numbers are outside the model; the scores stay
  far from both. A float operation of the interpreter is the exact operation followed
  by \<open>fl\<close>; the quotient of two integers is rounded the same way. \<open>round(x, n)\<close> on a
  float rounds the exact value of \<open>x\<close> to \<open>n\<close> decimals, ties to even, and returns the
  double nearest to that decimal. A division by zero raises \<open>ZeroDivisionError\<close>.
\<close>

function bit_length :: "int \<Rightarrow> int" where
  "bit_length n = (if n \<le> 0 then 0 else 1 + bit_length (n div 2))"
  by pat_completeness auto
termination by (relation "measure nat") auto

declare bit_length.simps [simp del]

definition pow2 :: "int \<Rightarrow> rat" where
  "pow2 e = (if 0 \<le> e then 2 ^ nat e else 1 / 2 ^ nat (- e))"

definition float_exponent :: "rat \<Rightarrow> int" where
  "float_exponent a =
     (let (p, q) = quotient_of a;
          k = bit_length p - bit_length q
      in if pow2 k \<le> a then k else k - 1)"

definition fl :: "rat \<Rightarrow> rat" where
  "fl x =
     (if x = 0 then 0
      else let ulp = pow2 (float_exponent \<bar>x\<bar> - 52)
           in sgn x * of_int (round_half_even (\<bar>x\<bar> / ulp)) * ulp)"

definition float_round :: "rat \<Rightarrow> nat \<Rightarrow> rat" where
  "float_round x ndigits = fl (py_round x ndigits)"

definition py_truediv :: "rat \<Rightarrow> rat \<Rightarrow> py_exn + rat" where
  "py_truediv a b = (if b = 0 then Inl ZeroDivisionError else Inr (fl (a / b)))"

section \<open>Standard library: strings and \<open>urllib.parse\<close> (CPython 3.11)\<close>

text \<open>
  The crawler relies on \<open>urllib.parse\<close>. Its functions are transcribed from the
  CPython 3.11 sources at the level of characters. Library behaviour that is not
  transcribed is a field of \<open>pylib\<close>, an argument of every function that reaches it:
  the validity test for a bracketed host (\<open>_check_bracketed_host\<close>), regular
  expression search, \<open>str()\<close> of floats and containers, float parsing, MD5 and the
  HTML parser.
\<close>

record Soup =
  h1_tags :: nat
  imgs :: "(string \<rightharpoonup> string) list"

record pylib =
  valid_bracketed_host :: "string \<Rightarrow> bool"
  re_search :: "string \<Rightarrow> string \<Rightarrow> py_exn + bool"
  repr_of :: "pyval \<Rightarrow> string"
  float_of_str :: "string \<Rightarrow> pyflt option"
  md5_hexdigest :: "string \<Rightarrow> string"
  BeautifulSoup :: "string \<Rightarrow> Soup"

definition is_space :: "char \<Rightarrow> bool" where
  "is_space c = (let n = (of_char c :: nat) in (9 \<le> n \<and> n \<le> 13) \<or> (28 \<le> n \<and> n \<le> 32))"

definition py_strip :: "string \<Rightarrow> string" where
  "py_strip s = rev (dropWhile is_space (rev (dropWhile is_space s)))"

definition lower_char :: "char \<Rightarrow> char" where
  "lower_char c = (let n = (of_char c :: nat) in if 65 \<le> n \<and> n \<le> 90 then char_of (n + 32) else c)"

definition upper_char :: "char \<Rightarrow> char" where
  "upper_char c = (let n = (of_char c :: nat) in if 97 \<le> n \<and> n \<le> 122 then char_of (n - 32) else c)"

definition py_lower :: "string \<Rightarrow> string" where
  "py_lower s = map lower_char s"

definition py_upper :: "string \<Rightarrow> string" where
  "py_upper s = map upper_char s"

definition is_alpha :: "char \<Rightarrow> bool" where
  "is_alpha c = (let n = (of_char c :: nat) in (65 \<le> n \<and> n \<le> 90) \<or> (97 \<le> n \<and> n \<le> 122))"

definition is_digit :: "char \<Rightarrow> bool" where
  "is_digit c = (let n = (of_char c :: nat) in 48 \<le> n \<and> n \<le> 57)"

text \<open>\<open>str(n)\<close> for a natural number.\<close>

fun str_nat :: "nat \<Rightarrow> string" where
  "str_nat n =
     (if n < 10 then [char_of (48 + n)]
      else str_nat (n div 10) @ [char_of (48 + n mod 10)])"

text \<open>\<open>s.partition(c)\<close>: the text in front of the first \<open>c\<close>, and the text after it if there is one.\<close>

fun partition_at :: "char \<Rightarrow> string \<Rightarrow> string \<times> string option" where
  "partition_at c [] = ([], None)"
| "partition_at c (x # xs) =
     (if x = c then ([], Some xs)
      else (case partition_at c xs of (a, r) \<Rightarrow> (x # a, r)))"

text \<open>\<open>s.split(c)\<close> for a one-character separator: never empty.\<close>

fun py_split :: "char \<Rightarrow> string \<Rightarrow> string list" where
  "py_split c [] = [[]]"
| "py_split c (x # xs) =
     (if x = c then [] # py_split c xs
      else (let r = py_split c xs in (x # hd r) # tl r))"

fun py_join :: "string \<Rightarrow> string list \<Rightarrow> string" where
  "py_join sep [] = []"
| "py_join sep [x] = x"
| "py_join sep (x # y # ys) = x @ sep @ py_join sep (y # ys)"

definition uses_relative :: "string list" where
  "uses_relative = ['''', ''ftp'', ''http'', ''gopher'', ''nntp'', ''imap'', ''wais'', ''file'',
     ''https'', ''shttp'', ''mms'', ''prospero'', ''rtsp'', ''rtsps'', ''rtspu'', ''sftp'',
     ''svn'', ''svn+ssh'', ''ws'', ''wss'']"

definition uses_netloc :: "string list" where
  "uses_netloc = ['''', ''ftp'', ''http'', ''gopher'', ''nntp'', ''telnet'', ''imap'', ''wais'',
     ''file'', ''mms'', ''https'', ''shttp'', ''snews'', ''prospero'', ''rtsp'', ''rtsps'',
     ''rtspu'', ''rsync'', ''svn'', ''svn+ssh'', ''sftp'', ''nfs'', ''git'', ''git+ssh'',
     ''ws'', ''wss'']"

definition uses_params :: "string list" where
  "uses_params = ['''', ''ftp'', ''hdl'', ''prospero'', ''http'', ''imap'', ''https'', ''shttp'',
     ''rtsp'', ''rtsps'', ''rtspu'', ''sip'', ''sips'', ''mms'', ''sftp'', ''tel'']"

definition scheme_char :: "char \<Rightarrow> bool" where
  "scheme_char c = (is_alpha c \<or> is_digit c \<or> c \<in> set ''+-.'')"

definition c0_control_or_space :: "char \<Rightarrow> bool" where
  "c0_control_or_space c = ((of_char c :: nat) \<le> 32)"

definition unsafe_url_byte :: "char \<Rightarrow> bool" where
  "unsafe_url_byte c = ((of_char c :: nat) \<in> {9, 10, 13})"

definition splitnetloc :: "string \<Rightarrow> nat \<Rightarrow> string \<times> string" where
  "splitnetloc u start =
     (let r = drop start u
      in (takeWhile (\<lambda>c. c \<notin> set ''/?#'') r, dropWhile (\<lambda>c. c \<notin> set ''/?#'') r))"

text \<open>
  \<open>urlsplit(url, scheme)\<close> returns (scheme, netloc, url, query, fragment) or raises
  \<open>ValueError\<close>. \<open>_checknetloc\<close> acts on non-ASCII hosts only.
\<close>

definition urlsplit ::
  "pylib \<Rightarrow> string \<Rightarrow> string \<Rightarrow> py_exn + (string \<times> string \<times> string \<times> string \<times> string)" where
  "urlsplit L url0 scheme0 =
     (let url1 = filter (\<lambda>c. \<not> unsafe_url_byte c) (dropWhile c0_control_or_space url0);
          scheme1 = filter (\<lambda>c. \<not> unsafe_url_byte c)
                      (rev (dropWhile c0_control_or_space
                         (rev (dropWhile c0_control_or_space scheme0))));
          pre = takeWhile (\<lambda>c. c \<noteq> CHR '':'') url1;
          (scheme2, url2) =
             (if CHR '':'' \<in> set url1 \<and> pre \<noteq> [] \<and> is_alpha (hd url1)
                 \<and> list_all scheme_char pre
              then (py_lower pre, drop (Suc (length pre)) url1)
              else (scheme1, url1));
          (netloc, url3) = (if take 2 url2 = ''//'' then splitnetloc url2 2 else ([], url2))
      in if (CHR ''['' \<in> set netloc \<and> CHR '']'' \<notin> set netloc)
            \<or> (CHR '']'' \<in> set netloc \<and> CHR ''['' \<notin> set netloc)
         then Inl ValueError
         else if CHR ''['' \<in> set netloc \<and> CHR '']'' \<in> set netloc
                 \<and> \<not> valid_bracketed_host L
                       (takeWhile (\<lambda>c. c \<noteq> CHR '']'')
                          (drop 1 (dropWhile (\<lambda>c. c \<noteq> CHR ''['') netloc)))
         then Inl ValueError
         else
           (let (url4, fragment) =
                  (case partition_at CHR ''#'' url3 of
                     (a, None) \<Rightarrow> (a, []) | (a, Some f) \<Rightarrow> (a, f));
                (url5, query) =
                  (case partition_at CHR ''?'' url4 of
                     (a, None) \<Rightarrow> (a, []) | (a, Some q) \<Rightarrow> (a, q))
            in Inr (scheme2, netloc, url5, query, fragment)))"

record ParseResult =
  scheme :: string
  netloc :: string
  path :: string
  params :: string
  query :: string
  fragment :: string

text \<open>\<open>_splitparams\<close>, called on a path that holds a semicolon.\<close>

definition splitparams :: "string \<Rightarrow> string \<times> string" where
  "splitparams u =
     (if CHR ''/'' \<in> set u then
        (let after = rev (takeWhile (\<lambda>c. c \<noteq> CHR ''/'') (rev u));
             upto = rev (dropWhile (\<lambda>c. c \<noteq> CHR ''/'') (rev u))
         in case partition_at CHR '';'' after of
              (a, None) \<Rightarrow> (u, [])
            | (a, Some p) \<Rightarrow> (upto @ a, p))
      else (case partition_at CHR '';'' u of
              (a, None) \<Rightarrow> (u, [])
            | (a, Some p) \<Rightarrow> (a, p)))"

definition urlparse :: "pylib \<Rightarrow> string \<Rightarrow> string \<Rightarrow> py_exn + ParseResult" where
  "urlparse L url0 scheme0 =
     (case urlsplit L url0 scheme0 of
        Inl e \<Rightarrow> Inl e
      | Inr (sch, nl, u, q, f) \<Rightarrow>
          (let (u', ps) = (if sch \<in> set uses_params \<and> CHR '';'' \<in> set u
                           then splitparams u else (u, []))
           in Inr \<lparr> scheme = sch, netloc = nl, path = u', params = ps,
                     query = q, fragment = f \<rparr>))"

definition urlunsplit :: "string \<Rightarrow> string \<Rightarrow> string \<Rightarrow> string \<Rightarrow> string \<Rightarrow> string" where
  "urlunsplit sch nl u q f =
     (let u1 = (if nl \<noteq> [] \<or> (sch \<noteq> [] \<and> sch \<in> set uses_netloc) \<or> take 2 u = ''//''
                then ''//'' @ nl @ (if u \<noteq> [] \<and> take 1 u \<noteq> ''/'' then ''/'' @ u else u)
                else u);
          u2 = (if sch \<noteq> [] then sch @ '':'' @ u1 else u1);
          u3 = (if q \<noteq> [] then u2 @ ''?'' @ q else u2)
      in if f \<noteq> [] then u3 @ ''#'' @ f else u3)"

definition urlunparse :: "ParseResult \<Rightarrow> string" where
  "urlunparse r =
     urlunsplit (scheme r) (netloc r)
       (if params r \<noteq> [] then path r @ '';'' @ params r else path r)
       (query r) (fragment r)"

text \<open>The loop of \<open>urljoin\<close> over the path segments, \<open>resolved_path\<close> as accumulator.\<close>

fun resolve_segments :: "string list \<Rightarrow> string list \<Rightarrow> string list" where
  "resolve_segments [] resolved = resolved"
| "resolve_segments (seg # segs) resolved =
     (if seg = ''..'' then resolve_segments segs (butlast resolved)
      else if seg = ''.'' then resolve_segments segs resolved
      else resolve_segments segs (resolved @ [seg]))"

definition urljoin :: "pylib \<Rightarrow> string \<Rightarrow> string \<Rightarrow> py_exn + string" where
  "urljoin L base url0 =
     (if base = [] then Inr url0
      else if url0 = [] then Inr base
      else
        case urlparse L base [] of
          Inl e \<Rightarrow> Inl e
        | Inr b \<Rightarrow>
           (case urlparse L url0 (scheme b) of
              Inl e \<Rightarrow> Inl e
            | Inr u \<Rightarrow>
               if scheme u \<noteq> scheme b \<or> scheme u \<notin> set uses_relative then Inr url0
               else if scheme u \<in> set uses_netloc \<and> netloc u \<noteq> [] then Inr (urlunparse u)
               else
                 (let nl = (if scheme u \<in> set uses_netloc then netloc b else netloc u)
                  in if path u = [] \<and> params u = [] then
                       Inr (urlunparse (u \<lparr> netloc := nl, path := path b, params := params b,
                              query := (if query u = [] then query b else query u) \<rparr>))
                     else
                       (let base_parts0 = py_split CHR ''/'' (path b);
                            base_parts = (if last base_parts0 \<noteq> [] then butlast base_parts0
                                          else base_parts0);
                            segments =
                              (if take 1 (path u) = ''/'' then py_split CHR ''/'' (path u)
                               else
                                 (let segs = base_parts @ py_split CHR ''/'' (path u)
                                  in if length segs \<ge> 2
                                     then hd segs # filter (\<lambda>s. s \<noteq> []) (butlast (tl segs))
                                            @ [last segs]
                                     else segs));
                            resolved0 = resolve_segments segments [];
                            resolved = (if last segments = ''.'' \<or> last segments = ''..''
                                        then resolved0 @ [[]] else resolved0);
                            joined = py_join ''/'' resolved
                        in Inr (urlunparse (u \<lparr> netloc := nl,
                                  path := (if joined \<noteq> [] then joined else ''/'') \<rparr>))))))"

definition hexdig_val :: "char \<Rightarrow> nat option" where
  "hexdig_val c =
     (let n = (of_char c :: nat)
      in if 48 \<le> n \<and> n \<le> 57 then Some (n - 48)
         else if 65 \<le> n \<and> n \<le> 70 then Some (n - 55)
         else if 97 \<le> n \<and> n \<le> 102 then Some (n - 87)
         else None)"

text \<open>
  \<open>unquote\<close>: every \<open>%XY\<close> with two hexadecimal digits becomes the byte \<open>XY\<close>, any
  other percent sign stays. (Bytes above 127 are decoded as UTF-8 by the library; the
  model keeps them as bytes.)
\<close>

fun unquote :: "string \<Rightarrow> string" where
  "unquote (c # a # b # rest) =
     (if c = CHR ''%'' then
        (case (hexdig_val a, hexdig_val b) of
           (Some h, Some l) \<Rightarrow> char_of (16 * h + l) # unquote rest
         | _ \<Rightarrow> c # unquote (a # b # rest))
      else c # unquote (a # b # rest))"
| "unquote (c # rest) = c # unquote rest"
| "unquote [] = []"

definition unquote_plus :: "string \<Rightarrow> string" where
  "unquote_plus s = unquote (map (\<lambda>c. if c = CHR ''+'' then CHR '' '' else c) s)"

definition always_safe :: "char \<Rightarrow> bool" where
  "always_safe c = (is_alpha c \<or> is_digit c \<or> c \<in> set ''_.-~'')"

definition hex_digit :: "nat \<Rightarrow> char" where
  "hex_digit n = (if n < 10 then char_of (48 + n) else char_of (55 + n))"

definition quote :: "string \<Rightarrow> string \<Rightarrow> string" where
  "quote s safe =
     concat (map (\<lambda>c. if always_safe c \<or> (c \<in> set safe \<and> (of_char c :: nat) < 128) then [c]
                       else [CHR ''%'', hex_digit ((of_char c :: nat) div 16),
                             hex_digit ((of_char c :: nat) mod 16)]) s)"

definition quote_plus :: "string \<Rightarrow> string \<Rightarrow> string" where
  "quote_plus s safe =
     (if CHR '' '' \<notin> set s then quote s safe
      else map (\<lambda>c. if c = CHR '' '' then CHR ''+'' else c) (quote s (safe @ '' '')))"

text \<open>\<open>parse_qsl(qs, keep_blank_values)\<close> and \<open>parse_qs\<close>; the dictionary keeps the order
  in which the names first occur.\<close>

definition parse_qsl :: "string \<Rightarrow> bool \<Rightarrow> (string \<times> string) list" where
  "parse_qsl qs keep_blank_values =
     (if qs = [] then []
      else concat (map (\<lambda>name_value.
             if name_value = [] then []
             else (case partition_at CHR ''='' name_value of
                     (name, r) \<Rightarrow>
                       (let v = (case r of None \<Rightarrow> [] | Some w \<Rightarrow> w)
                        in if v \<noteq> [] \<or> keep_blank_values
                           then [(unquote_plus name, unquote_plus v)] else [])))
           (py_split CHR ''&'' qs)))"

fun dict_append :: "(string \<times> string list) list \<Rightarrow> string \<Rightarrow> string \<Rightarrow> (string \<times> string list) list" where
  "dict_append [] name v = [(name, [v])]"
| "dict_append ((k, vs) # d) name v =
     (if k = name then (k, vs @ [v]) # d else (k, vs) # dict_append d name v)"

definition parse_qs :: "string \<Rightarrow> bool \<Rightarrow> (string \<times> string list) list" where
  "parse_qs qs keep_blank_values =
     fold (\<lambda>(name, v) d. dict_append d name v) (parse_qsl qs keep_blank_values) []"

text \<open>\<open>urlencode(query, doseq=True)\<close> on a dictionary of string lists.\<close>

definition urlencode :: "(string \<times> string list) list \<Rightarrow> string" where
  "urlencode q =
     py_join ''&'' (concat (map (\<lambda>(k, vs). map (\<lambda>elt. quote_plus k [] @ ''='' @ quote_plus elt []) vs) q))"

section \<open>URL normalizer (app/engines/crawler/engine.py)\<close>

definition IGNORED_PARAMS :: "string list" where
  "IGNORED_PARAMS = [''utm_source'', ''utm_medium'', ''utm_campaign'', ''utm_content'',
     ''utm_term'', ''ref'', ''fbclid'', ''gclid'']"

definition IGNORED_EXTENSIONS :: "string list" where
  "IGNORED_EXTENSIONS = [''.pdf'', ''.jpg'', ''.jpeg'', ''.png'', ''.gif'', ''.svg'', ''.ico'',
     ''.css'', ''.js'', ''.woff'', ''.woff2'', ''.ttf'', ''.zip'', ''.tar'', ''.gz'', ''.mp4'',
     ''.mp3'', ''.wav'']"

text \<open>
  \<open>URLNormalizer.normalize\<close>: \<open>None\<close> is the reject signal, returned also when the
  library raises (\<open>except Exception: return None\<close>).
\<close>

definition normalize_url :: "pylib \<Rightarrow> string \<Rightarrow> string \<Rightarrow> string option" where
  "normalize_url L u base_url =
     (case urljoin L base_url (py_strip u) of
        Inl e \<Rightarrow> None
      | Inr joined \<Rightarrow>
         (case urlparse L joined [] of
            Inl e \<Rightarrow> None
          | Inr parsed \<Rightarrow>
             if scheme parsed \<noteq> ''http'' \<and> scheme parsed \<noteq> ''https'' then None
             else if list_ex (\<lambda>ext. suffix ext (py_lower (path parsed))) IGNORED_EXTENSIONS
             then None
             else
               (let q = (if query parsed \<noteq> []
                         then urlencode (filter (\<lambda>(k, v). k \<notin> set IGNORED_PARAMS)
                                           (parse_qs (query parsed) True))
                         else []);
                    p = (if path parsed \<noteq> ''/'' \<and> suffix ''/'' (path parsed)
                         then rev (dropWhile (\<lambda>c. c = CHR ''/'') (rev (path parsed)))
                         else path parsed)
                in Some (urlunparse \<lparr> scheme = py_lower (scheme parsed),
                                       netloc = py_lower (netloc parsed),
                                       path = p, params = params parsed,
                                       query = q, fragment = [] \<rparr>))))"

definition is_same_domain :: "pylib \<Rightarrow> string \<Rightarrow> string \<Rightarrow> py_exn + bool" where
  "is_same_domain L u root_domain =
     (case urlparse L u [] of
        Inl e \<Rightarrow> Inl e
      | Inr parsed \<Rightarrow>
          (let host = py_lower (netloc parsed)
           in Inr (host = root_domain \<or> suffix (''.'' @ root_domain) host)))"


section \<open>Standard library: \<open>urllib.robotparser\<close> (CPython 3.11)\<close>

record RuleLine =
  path :: string
  allowance :: bool

record Entry =
  useragents :: "string list"
  rulelines :: "RuleLine list"
  delay :: "int option"
  req_rate :: "(int \<times> int) option"

text \<open>
  \<open>last_checked\<close> is 0 until \<open>parse\<close> stores the time of the call (\<open>modified()\<close>).
\<close>

record RobotFileParser =
  entries :: "Entry list"
  sitemaps :: "string list"
  default_entry :: "Entry option"
  disallow_all :: bool
  allow_all :: bool
  url :: string
  host :: string
  path :: string
  last_checked :: rat

definition new_RobotFileParser :: "pylib \<Rightarrow> string \<Rightarrow> py_exn + RobotFileParser" where
  "new_RobotFileParser L u =
     (case urlparse L u [] of
        Inl e \<Rightarrow> Inl e
      | Inr parsed \<Rightarrow>
          Inr \<lparr> entries = [], sitemaps = [], default_entry = None, disallow_all = False,
                allow_all = False, url = u, host = netloc parsed,
                path = ParseResult.path parsed, last_checked = 0 \<rparr>)"

definition new_Entry :: Entry where
  "new_Entry = \<lparr> useragents = [], rulelines = [], delay = None, req_rate = None \<rparr>"

definition add_entry :: "RobotFileParser \<Rightarrow> Entry \<Rightarrow> RobotFileParser" where
  "add_entry p entry =
     (if ''*'' \<in> set (useragents entry) then
        (if default_entry p = None then p \<lparr> default_entry := Some entry \<rparr> else p)
      else p \<lparr> entries := entries p @ [entry] \<rparr>)"

definition new_RuleLine :: "pylib \<Rightarrow> string \<Rightarrow> bool \<Rightarrow> py_exn + RuleLine" where
  "new_RuleLine L p allow =
     (case urlparse L p [] of
        Inl e \<Rightarrow> Inl e
      | Inr parsed \<Rightarrow>
          Inr \<lparr> RuleLine.path = quote (urlunparse parsed) ''/'',
                allowance = (if p = [] \<and> \<not> allow then True else allow) \<rparr>)"

definition is_linebreak :: "char \<Rightarrow> bool" where
  "is_linebreak c = ((of_char c :: nat) \<in> {10, 11, 12, 13, 28, 29, 30})"

fun splitlines_from :: "string \<Rightarrow> string \<Rightarrow> string list" where
  "splitlines_from (c # d # cs) cur =
     (if c = CHR 0x0D \<and> d = CHR 0x0A then cur # splitlines_from cs []
      else if is_linebreak c then cur # splitlines_from (d # cs) []
      else splitlines_from (d # cs) (cur @ [c]))"
| "splitlines_from [c] cur = (if is_linebreak c then [cur] else [cur @ [c]])"
| "splitlines_from [] cur = (if cur = [] then [] else [cur])"

definition splitlines :: "string \<Rightarrow> string list" where
  "splitlines s = splitlines_from s []"

text \<open>\<open>s.isdigit()\<close> and \<open>int(s)\<close> for a string of decimal digits.\<close>

definition isdigit :: "string \<Rightarrow> bool" where
  "isdigit s = (s \<noteq> [] \<and> list_all is_digit s)"

definition nat_of_digits :: "string \<Rightarrow> nat" where
  "nat_of_digits s = foldl (\<lambda>n c. 10 * n + ((of_char c :: nat) - 48)) 0 s"

text \<open>
  One round of the loop of \<open>RobotFileParser.parse\<close> over the lines, on the parser,
  the state (0 start, 1 after a user-agent line, 2 after a rule line) and the entry
  being read; \<open>parse_lines\<close> is the loop.
\<close>

definition parse_line ::
  "pylib \<Rightarrow> string \<Rightarrow> RobotFileParser \<times> nat \<times> Entry
     \<Rightarrow> py_exn + (RobotFileParser \<times> nat \<times> Entry)" where
  "parse_line L line0 acc =
     (case acc of (p0, st0, entry0) \<Rightarrow>
     (let (p, st, entry) =
            (if line0 = [] then
               (if st0 = 1 then (p0, 0, new_Entry)
                else if st0 = 2 then (add_entry p0 entry0, 0, new_Entry)
                else (p0, st0, entry0))
             else (p0, st0, entry0));
          line = py_strip (takeWhile (\<lambda>c. c \<noteq> CHR ''#'') line0)
      in if line = [] then Inr (p, st, entry)
         else
           (case partition_at CHR '':'' line of
              (a, None) \<Rightarrow> Inr (p, st, entry)
            | (a, Some b) \<Rightarrow>
               (let k = py_lower (py_strip a); v = unquote (py_strip b)
                in if k = ''user-agent'' then
                     (let (p1, entry1) = (if st = 2 then (add_entry p entry, new_Entry)
                                          else (p, entry))
                      in Inr
                           (p1, 1, entry1 \<lparr> useragents := useragents entry1 @ [v] \<rparr>))
                   else if k = ''disallow'' then
                     (if st \<noteq> 0 then
                        (case new_RuleLine L v False of
                           Inl e \<Rightarrow> Inl e
                         | Inr rl \<Rightarrow> Inr
                           (p, 2, entry \<lparr> rulelines := rulelines entry @ [rl] \<rparr>))
                      else Inr (p, st, entry))
                   else if k = ''allow'' then
                     (if st \<noteq> 0 then
                        (case new_RuleLine L v True of
                           Inl e \<Rightarrow> Inl e
                         | Inr rl \<Rightarrow> Inr
                           (p, 2, entry \<lparr> rulelines := rulelines entry @ [rl] \<rparr>))
                      else Inr (p, st, entry))
                   else if k = ''crawl-delay'' then
                     (if st \<noteq> 0 then
                        Inr
                           (p, 2, if isdigit (py_strip v)
                                 then entry \<lparr> delay := Some (int (nat_of_digits (py_strip v))) \<rparr>
                                 else entry)
                      else Inr (p, st, entry))
                   else if k = ''request-rate'' then
                     (if st \<noteq> 0 then
                        (let numbers = py_split CHR ''/'' v
                         in Inr
                           (p, 2, if length numbers = 2 \<and> isdigit (py_strip (numbers ! 0))
                                        \<and> isdigit (py_strip (numbers ! 1))
                                     then entry \<lparr> req_rate :=
                                            Some (int (nat_of_digits (py_strip (numbers ! 0))),
                                                  int (nat_of_digits (py_strip (numbers ! 1)))) \<rparr>
                                     else entry))
                      else Inr (p, st, entry))
                   else if k = ''sitemap'' then
                     Inr (p \<lparr> sitemaps := sitemaps p @ [v] \<rparr>, st, entry)
                   else Inr (p, st, entry)))))"

fun parse_lines ::
  "pylib \<Rightarrow> string list \<Rightarrow> RobotFileParser \<times> nat \<times> Entry
     \<Rightarrow> py_exn + (RobotFileParser \<times> nat \<times> Entry)" where
  "parse_lines L [] acc = Inr acc"
| "parse_lines L (line0 # rest) acc =
     (case parse_line L line0 acc of
        Inl e \<Rightarrow> Inl e
      | Inr acc' \<Rightarrow> parse_lines L rest acc')"

text \<open>\<open>parse(lines)\<close>; \<open>now\<close> is the value of \<open>time.time()\<close> at the call.\<close>

definition rfp_parse ::
  "pylib \<Rightarrow> rat \<Rightarrow> string list \<Rightarrow> RobotFileParser \<Rightarrow> py_exn + RobotFileParser" where
  "rfp_parse L now lines p =
     (case parse_lines L lines (p \<lparr> last_checked := now \<rparr>, 0, new_Entry) of
        Inl e \<Rightarrow> Inl e
      | Inr (p', st, entry) \<Rightarrow> Inr (if st = 2 then add_entry p' entry else p'))"

text \<open>\<open>needle in s\<close> on strings.\<close>

fun py_in_str :: "string \<Rightarrow> string \<Rightarrow> bool" where
  "py_in_str needle [] = (needle = [])"
| "py_in_str needle (c # cs) = (prefix needle (c # cs) \<or> py_in_str needle cs)"

definition entry_applies_to :: "Entry \<Rightarrow> string \<Rightarrow> bool" where
  "entry_applies_to entry useragent =
     (let ua = py_lower (hd (py_split CHR ''/'' useragent))
      in list_ex (\<lambda>agent. agent = ''*'' \<or> py_in_str (py_lower agent) ua) (useragents entry))"

definition entry_allowance :: "Entry \<Rightarrow> string \<Rightarrow> bool" where
  "entry_allowance entry filename =
     (case find (\<lambda>line. RuleLine.path line = ''*'' \<or> prefix (RuleLine.path line) filename)
             (rulelines entry) of
        Some line \<Rightarrow> allowance line
      | None \<Rightarrow> True)"

definition rfp_can_fetch :: "pylib \<Rightarrow> RobotFileParser \<Rightarrow> string \<Rightarrow> string \<Rightarrow> py_exn + bool" where
  "rfp_can_fetch L p useragent u =
     (if disallow_all p then Inr False
      else if allow_all p then Inr True
      else if last_checked p = 0 then Inr False
      else
        (case urlparse L (unquote u) [] of
           Inl e \<Rightarrow> Inl e
         | Inr parsed \<Rightarrow>
            (let u1 = quote (urlunparse (parsed \<lparr> scheme := [], netloc := [] \<rparr>)) ''/'';
                 u2 = (if u1 = [] then ''/'' else u1)
             in Inr (case find (\<lambda>entry. entry_applies_to entry useragent) (entries p) of
                       Some entry \<Rightarrow> entry_allowance entry u2
                     | None \<Rightarrow>
                        (case default_entry p of
                           Some entry \<Rightarrow> entry_allowance entry u2
                         | None \<Rightarrow> True)))))"

definition rfp_crawl_delay :: "RobotFileParser \<Rightarrow> string \<Rightarrow> int option" where
  "rfp_crawl_delay p useragent =
     (if last_checked p = 0 then None
      else (case find (\<lambda>entry. entry_applies_to entry useragent) (entries p) of
              Some entry \<Rightarrow> delay entry
            | None \<Rightarrow> (case default_entry p of Some entry \<Rightarrow> delay entry | None \<Rightarrow> None)))"

section \<open>Robots handler (app/engines/crawler/engine.py)\<close>

text \<open>
  An HTTP response as far as the crawler reads it, and the outcome of
  \<open>session.get(url)\<close>: a response or an exception.
\<close>

record Response =
  status_code :: int
  resp_text :: string

type_synonym http_get = "string \<Rightarrow> py_exn + Response"

definition CRAWLER_USER_AGENT :: string where
  "CRAWLER_USER_AGENT = ''SEOAuditBot/1.0 (+https://seoplatform.com/bot)''"

text \<open>The state of a \<open>RobotsHandler\<close> is its dictionary \<open>_parsers\<close>.\<close>

type_synonym RobotsHandler = "string \<rightharpoonup> RobotFileParser"

text \<open>
  \<open>fetch_and_parse\<close>: the parser is created before the \<open>try\<close>, so an exception of its
  constructor leaves the method; inside the \<open>try\<close> every exception stores a new parser
  made by \<open>RobotFileParser()\<close>.
\<close>

definition fetch_and_parse ::
  "pylib \<Rightarrow> rat \<Rightarrow> http_get \<Rightarrow> RobotsHandler \<Rightarrow> string \<Rightarrow> py_exn + RobotsHandler" where
  "fetch_and_parse L now session_get parsers dname =
     (let robots_url = ''https://'' @ dname @ ''/robots.txt''
      in case new_RobotFileParser L robots_url of
           Inl e \<Rightarrow> Inl e
         | Inr parser \<Rightarrow>
            (case new_RobotFileParser L [] of
               Inl e \<Rightarrow> Inl e
             | Inr fresh \<Rightarrow>
                (case session_get robots_url of
                   Inl e \<Rightarrow> Inr (parsers (dname \<mapsto> fresh))
                 | Inr response \<Rightarrow>
                    if Response.status_code response = 200 then
                      (case rfp_parse L now (splitlines (resp_text response)) parser of
                         Inl e \<Rightarrow> Inr (parsers (dname \<mapsto> fresh))
                       | Inr parsed \<Rightarrow> Inr (parsers (dname \<mapsto> parsed)))
                    else Inr (parsers (dname \<mapsto> parser)))))"

definition can_fetch :: "pylib \<Rightarrow> RobotsHandler \<Rightarrow> string \<Rightarrow> string \<Rightarrow> py_exn + bool" where
  "can_fetch L parsers u user_agent =
     (case urlparse L u [] of
        Inl e \<Rightarrow> Inl e
      | Inr parsed \<Rightarrow>
         (case parsers (py_lower (netloc parsed)) of
            None \<Rightarrow> Inr True
          | Some parser \<Rightarrow> rfp_can_fetch L parser user_agent u))"

definition get_crawl_delay :: "RobotsHandler \<Rightarrow> string \<Rightarrow> rat option" where
  "get_crawl_delay parsers dname =
     (case parsers dname of
        None \<Rightarrow> None
      | Some parser \<Rightarrow>
         (case rfp_crawl_delay parser CRAWLER_USER_AGENT of
            None \<Rightarrow> None
          | Some d \<Rightarrow> if d \<noteq> 0 then Some (of_int d) else None))"


section \<open>Sitemap parser (app/engines/crawler/engine.py)\<close>

text \<open>
  \<open>SitemapParser._fetch_sitemap\<close>. The HTTP session is the function \<open>session_get\<close>;
  \<open>find_all_loc content\<close> stands for the texts of
  \<open>BeautifulSoup(content, "xml").find_all("loc")\<close>, which may raise. Every exception
  inside the function is caught there (\<open>except Exception\<close>) and gives the empty list.

  The function has no depth parameter. What bounds the recursion is the interpreter:
  \<open>limit\<close> is the number of nested activations of \<open>_fetch_sitemap\<close> that the recursion
  limit still admits. An activation for which none is left raises \<open>RecursionError\<close>
  inside its \<open>try\<close> block before it has sent a request; the handler catches it and the
  call returns the empty list. The function is therefore total, by recursion on \<open>limit\<close>.

  Next to the list of URLs the function returns the log of the requests it sent, in
  order, each with its level below the first call; the level is bookkeeping that the
  source does not carry.
\<close>

type_synonym fetch_log = "(nat \<times> string) list"

fun fetch_sitemap ::
  "nat \<Rightarrow> (string \<Rightarrow> py_exn + string list) \<Rightarrow> http_get \<Rightarrow> nat \<Rightarrow> string
     \<Rightarrow> string list \<times> fetch_log" where
  "fetch_sitemap 0 find_all_loc session_get level u = ([], [])"
| "fetch_sitemap (Suc limit) find_all_loc session_get level u =
     (case session_get u of
        Inl e \<Rightarrow> ([], [(level, u)])
      | Inr response \<Rightarrow>
          if Response.status_code response \<noteq> 200 then ([], [(level, u)])
          else
            let content = resp_text response
            in if py_in_str ''<sitemapindex'' content then
                 (case find_all_loc content of
                    Inl e \<Rightarrow> ([], [(level, u)])
                  | Inr locs \<Rightarrow>
                      (let nested = map (\<lambda>loc. fetch_sitemap limit find_all_loc session_get
                                                 (Suc level) (py_strip loc)) locs
                       in (concat (map fst nested), (level, u) # concat (map snd nested))))
               else if py_in_str ''<urlset'' content then
                 (case find_all_loc content of
                    Inl e \<Rightarrow> ([], [(level, u)])
                  | Inr locs \<Rightarrow> (map py_strip locs, [(level, u)]))
               else ([], [(level, u)]))"

section \<open>Engine contracts (app/engines/base.py)\<close>

datatype Severity = CRITICAL | HIGH | MEDIUM | LOW | INFO

datatype IssueCategory =
    CRAWLABILITY | TECHNICAL | ON_PAGE | CONTENT | PERFORMANCE | INTERNAL_LINKS
  | SCHEMA | AUTHORITY | COMPETITOR | INTERNATIONAL | LOCAL

datatype EngineStatus = SUCCESS | PARTIAL | FAILED | SKIPPED

text \<open>
  \<open>PageData\<close> with the fields the modelled engines read or write; \<open>headers\<close>,
  \<open>images\<close>, \<open>structured_data\<close>, \<open>page_size_bytes\<close> and \<open>crawled_at\<close> are written by
  the fetcher only.
\<close>

record PageData =
  url :: string
  canonical_url :: "string option"
  status_code :: int
  content_type :: string
  html :: string
  text_content :: string
  meta :: "string \<rightharpoonup> string"
  links :: "string list"
  load_time_ms :: rat
  depth :: int

record Issue =
  rule_id :: string
  title :: string
  description :: string
  severity :: Severity
  category :: IssueCategory
  affected_urls :: "string list"
  affected_count :: nat
  impact_score :: rat
  effort_score :: rat
  recommendation :: string
  documentation_url :: string
  metadata :: "(string \<times> pyval) list"

record Recommendation =
  issue_id :: string
  priority_rank :: nat
  title :: string
  description :: string
  effort :: string
  impact :: string
  estimated_traffic_gain :: rat
  estimated_revenue_impact :: rat
  implementation_steps :: "string list"

record AuditResult =
  engine_name :: string
  audit_id :: string
  status :: EngineStatus
  category :: IssueCategory
  score :: rat
  grade :: string
  issues :: "Issue list"
  recommendations :: "Recommendation list"
  metadata :: "(string \<times> pyval) list"
  execution_time_ms :: rat
  pages_analyzed :: nat
  error_message :: "string option"

text \<open>
  \<open>SiteData.settings\<close> is a dictionary read with \<open>settings.get(key, default)\<close>; each
  key the engines read is an optional field.
\<close>

record Settings =
  max_pages :: "int option"
  max_depth :: "int option"
  concurrency :: "int option"
  js_render :: "bool option"
  engine_results :: "AuditResult list option"
  monthly_traffic :: "int option"

record SiteData =
  audit_id :: string
  site_id :: string
  domain :: string
  root_url :: string
  pages :: "PageData list"
  sitemap_urls :: "string list"
  robots_txt :: string
  crawl_stats :: "(string \<times> pyval) list"
  settings :: Settings

definition calculate_grade :: "rat \<Rightarrow> string" where
  "calculate_grade sc =
     (if sc \<ge> 90 then ''A''
      else if sc \<ge> 80 then ''B''
      else if sc \<ge> 65 then ''C''
      else if sc \<ge> 50 then ''D''
      else ''F'')"

text \<open>
  \<open>int(s)\<close> on a string: white space around an optional sign and decimal digits, which
  single underscores may separate; anything else raises \<open>ValueError\<close>.
\<close>

fun no_double_underscore :: "string \<Rightarrow> bool" where
  "no_double_underscore (a # b # cs) =
     (\<not> (a = CHR ''_'' \<and> b = CHR ''_'') \<and> no_double_underscore (b # cs))"
| "no_double_underscore cs = True"

definition py_int_of_str :: "string \<Rightarrow> py_exn + int" where
  "py_int_of_str s =
     (let t = py_strip s;
          neg = (take 1 t = ''-'');
          digits = (if take 1 t = ''-'' \<or> take 1 t = ''+'' then drop 1 t else t)
      in if digits \<noteq> [] \<and> list_all (\<lambda>c. is_digit c \<or> c = CHR ''_'') digits
            \<and> hd digits \<noteq> CHR ''_'' \<and> last digits \<noteq> CHR ''_'' \<and> no_double_underscore digits
         then Inr ((if neg then - 1 else 1)
                   * int (nat_of_digits (filter (\<lambda>c. c \<noteq> CHR ''_'') digits)))
         else Inl ValueError)"

section \<open>Python operations on values\<close>

text \<open>
  The values of a rule and of the page data come from JSON: null, booleans, integers,
  floats, strings, lists and dictionaries with string keys. Equality and order follow
  Python: booleans and integers compare with floats as numbers, a NaN equals nothing,
  lists compare element by element, and an order between other kinds of values raises
  \<open>TypeError\<close>. The values of a rule and of a page are distinct objects, so equality
  never holds by identity alone.
\<close>

definition truthy :: "pyval \<Rightarrow> bool" where
  "truthy v =
     (case v of
        PNone \<Rightarrow> False
      | PBool b \<Rightarrow> b
      | PInt i \<Rightarrow> i \<noteq> 0
      | PFloat f \<Rightarrow> f \<noteq> Finite 0
      | PStr s \<Rightarrow> s \<noteq> []
      | PList xs \<Rightarrow> xs \<noteq> []
      | PDict d \<Rightarrow> d \<noteq> [])"

definition num_of :: "pyval \<Rightarrow> pyflt option" where
  "num_of v =
     (case v of
        PBool b \<Rightarrow> Some (Finite (if b then 1 else 0))
      | PInt i \<Rightarrow> Some (Finite (of_int i))
      | PFloat f \<Rightarrow> Some f
      | _ \<Rightarrow> None)"

definition flt_eq :: "pyflt \<Rightarrow> pyflt \<Rightarrow> bool" where
  "flt_eq a b = (a \<noteq> NaN \<and> a = b)"

definition flt_lt :: "pyflt \<Rightarrow> pyflt \<Rightarrow> bool" where
  "flt_lt a b =
     (case a of
        NaN \<Rightarrow> False
      | NegInf \<Rightarrow> (b \<noteq> NaN \<and> b \<noteq> NegInf)
      | PosInf \<Rightarrow> False
      | Finite x \<Rightarrow> (case b of Finite y \<Rightarrow> x < y | PosInf \<Rightarrow> True | _ \<Rightarrow> False))"

definition num_eq :: "pyflt \<Rightarrow> pyval \<Rightarrow> bool" where
  "num_eq f b = (case num_of b of Some g \<Rightarrow> flt_eq f g | None \<Rightarrow> False)"

fun py_eq :: "pyval \<Rightarrow> pyval \<Rightarrow> bool"
  and py_eq_list :: "pyval list \<Rightarrow> pyval list \<Rightarrow> bool"
  and py_eq_items :: "(string \<times> pyval) list \<Rightarrow> (string \<times> pyval) list \<Rightarrow> bool" where
  "py_eq PNone b = (b = PNone)"
| "py_eq (PBool x) b = num_eq (Finite (if x then 1 else 0)) b"
| "py_eq (PInt i) b = num_eq (Finite (of_int i)) b"
| "py_eq (PFloat f) b = num_eq f b"
| "py_eq (PStr s) b = (b = PStr s)"
| "py_eq (PList xs) b = (case b of PList ys \<Rightarrow> py_eq_list xs ys | _ \<Rightarrow> False)"
| "py_eq (PDict d) b =
     (case b of PDict e \<Rightarrow> length d = length e \<and> py_eq_items d e | _ \<Rightarrow> False)"
| "py_eq_list [] ys = (ys = [])"
| "py_eq_list (x # xs) ys =
     (case ys of [] \<Rightarrow> False | y # ys' \<Rightarrow> py_eq x y \<and> py_eq_list xs ys')"
| "py_eq_items [] e = True"
| "py_eq_items ((k, v) # d) e =
     ((case map_of e k of None \<Rightarrow> False | Some w \<Rightarrow> py_eq v w) \<and> py_eq_items d e)"

datatype cmp_op = Lt | Gt | Le | Ge

definition flt_cmp :: "cmp_op \<Rightarrow> pyflt \<Rightarrow> pyflt \<Rightarrow> bool" where
  "flt_cmp opr a b =
     (case opr of
        Lt \<Rightarrow> flt_lt a b
      | Gt \<Rightarrow> flt_lt b a
      | Le \<Rightarrow> flt_lt a b \<or> flt_eq a b
      | Ge \<Rightarrow> flt_lt b a \<or> flt_eq a b)"

definition str_cmp :: "cmp_op \<Rightarrow> string \<Rightarrow> string \<Rightarrow> bool" where
  "str_cmp opr s t =
     (case opr of
        Lt \<Rightarrow> str_lt s t
      | Gt \<Rightarrow> str_lt t s
      | Le \<Rightarrow> str_lt s t \<or> s = t
      | Ge \<Rightarrow> str_lt t s \<or> s = t)"

text \<open>
  The order of two lists is decided at the first position where the elements are not
  equal, by the order of those elements; without such a position, by the lengths.
\<close>

fun py_cmp :: "cmp_op \<Rightarrow> pyval \<Rightarrow> pyval \<Rightarrow> py_exn + bool"
  and py_cmp_list :: "cmp_op \<Rightarrow> pyval list \<Rightarrow> pyval list \<Rightarrow> py_exn + bool" where
  "py_cmp opr (PList xs) b = (case b of PList ys \<Rightarrow> py_cmp_list opr xs ys | _ \<Rightarrow> Inl TypeError)"
| "py_cmp opr (PStr s) b = (case b of PStr t \<Rightarrow> Inr (str_cmp opr s t) | _ \<Rightarrow> Inl TypeError)"
| "py_cmp opr PNone b = Inl TypeError"
| "py_cmp opr (PDict d) b = Inl TypeError"
| "py_cmp opr (PBool x) b =
     (case num_of b of Some g \<Rightarrow> Inr (flt_cmp opr (Finite (if x then 1 else 0)) g)
      | None \<Rightarrow> Inl TypeError)"
| "py_cmp opr (PInt i) b =
     (case num_of b of Some g \<Rightarrow> Inr (flt_cmp opr (Finite (of_int i)) g)
      | None \<Rightarrow> Inl TypeError)"
| "py_cmp opr (PFloat f) b =
     (case num_of b of Some g \<Rightarrow> Inr (flt_cmp opr f g) | None \<Rightarrow> Inl TypeError)"
| "py_cmp_list opr [] ys = Inr (if ys = [] then opr = Le \<or> opr = Ge else opr = Lt \<or> opr = Le)"
| "py_cmp_list opr (x # xs) ys =
     (case ys of
        [] \<Rightarrow> Inr (opr = Gt \<or> opr = Ge)
      | y # ys' \<Rightarrow> if py_eq x y then py_cmp_list opr xs ys' else py_cmp opr x y)"

definition py_len :: "pyval \<Rightarrow> py_exn + nat" where
  "py_len v =
     (case v of
        PStr s \<Rightarrow> Inr (length s)
      | PList xs \<Rightarrow> Inr (length xs)
      | PDict d \<Rightarrow> Inr (length d)
      | _ \<Rightarrow> Inl TypeError)"

text \<open>
  \<open>item in container\<close>: a substring test on a string (the item must be a string), an
  equality test against the elements of a list, a key test on a dictionary (a list or
  a dictionary is not hashable); anything else is not iterable.
\<close>

definition py_contains :: "pyval \<Rightarrow> pyval \<Rightarrow> py_exn + bool" where
  "py_contains container item =
     (case container of
        PStr s \<Rightarrow> (case item of PStr t \<Rightarrow> Inr (py_in_str t s) | _ \<Rightarrow> Inl TypeError)
      | PList xs \<Rightarrow> Inr (list_ex (\<lambda>x. py_eq x item) xs)
      | PDict d \<Rightarrow>
          (case item of
             PList ys \<Rightarrow> Inl TypeError
           | PDict e \<Rightarrow> Inl TypeError
           | PStr k \<Rightarrow> Inr (k \<in> set (map fst d))
           | _ \<Rightarrow> Inr False)
      | _ \<Rightarrow> Inl TypeError)"

definition str_int :: "int \<Rightarrow> string" where
  "str_int i = (if i < 0 then ''-'' @ str_nat (nat (- i)) else str_nat (nat i))"

text \<open>\<open>str(v)\<close>; the text of a float, a list or a dictionary is the library's.\<close>

definition py_str :: "pylib \<Rightarrow> pyval \<Rightarrow> string" where
  "py_str L v =
     (case v of
        PStr s \<Rightarrow> s
      | PNone \<Rightarrow> ''None''
      | PBool b \<Rightarrow> (if b then ''True'' else ''False'')
      | PInt i \<Rightarrow> str_int i
      | _ \<Rightarrow> repr_of L v)"

definition negate :: "py_exn + bool \<Rightarrow> py_exn + bool" where
  "negate r = (case r of Inl e \<Rightarrow> Inl e | Inr b \<Rightarrow> Inr (\<not> b))"

section \<open>Rule engine (app/core/rule_engine.py)\<close>

record RuleCondition =
  field :: string
  operator :: string
  value' :: pyval
  transform :: "string option"

text \<open>A rule, with the two fields that the evaluator reads.\<close>

record Rule =
  conditions :: "RuleCondition list"
  condition_logic :: string

text \<open>
  The operator registry: each entry takes the left operand \<open>a\<close> (from the page) and the
  right operand \<open>b\<close> (the condition's value) and returns a truth value or raises.
\<close>

definition OPERATORS :: "string \<Rightarrow> (pylib \<Rightarrow> pyval \<Rightarrow> pyval \<Rightarrow> py_exn + bool) option" where
  "OPERATORS name =
     map_of
       [(''eq'', \<lambda>L a b. Inr (py_eq a b)),
        (''ne'', \<lambda>L a b. Inr (\<not> py_eq a b)),
        (''lt'', \<lambda>L a b. py_cmp Lt a b),
        (''gt'', \<lambda>L a b. py_cmp Gt a b),
        (''lte'', \<lambda>L a b. py_cmp Le a b),
        (''gte'', \<lambda>L a b. py_cmp Ge a b),
        (''contains'', \<lambda>L a b. if truthy a then py_contains a b else Inr False),
        (''not_contains'', \<lambda>L a b. if truthy a then negate (py_contains a b) else Inr True),
        (''matches'', \<lambda>L a b.
           if truthy a
           then (case b of PStr pat \<Rightarrow> re_search L pat (py_str L a) | _ \<Rightarrow> Inl TypeError)
           else Inr False),
        (''not_matches'', \<lambda>L a b.
           if truthy a
           then negate (case b of PStr pat \<Rightarrow> re_search L pat (py_str L a)
                        | _ \<Rightarrow> Inl TypeError)
           else Inr True),
        (''exists'', \<lambda>L a b. Inr (a \<noteq> PNone \<and> \<not> py_eq a (PStr []) \<and> \<not> py_eq a (PList []))),
        (''not_exists'', \<lambda>L a b. Inr (a = PNone \<or> py_eq a (PStr []) \<or> py_eq a (PList []))),
        (''in'', \<lambda>L a b. if truthy b then py_contains b a else Inr False),
        (''not_in'', \<lambda>L a b. if truthy b then negate (py_contains b a) else Inr True),
        (''length_lt'', \<lambda>L a b.
           if truthy a
           then (case py_len a of Inl e \<Rightarrow> Inl e | Inr n \<Rightarrow> py_cmp Lt (PInt (int n)) b)
           else Inr True),
        (''length_gt'', \<lambda>L a b.
           if truthy a
           then (case py_len a of Inl e \<Rightarrow> Inl e | Inr n \<Rightarrow> py_cmp Gt (PInt (int n)) b)
           else Inr False),
        (''length_eq'', \<lambda>L a b.
           if truthy a
           then (case py_len a of Inl e \<Rightarrow> Inl e | Inr n \<Rightarrow> Inr (py_eq (PInt (int n)) b))
           else Inr False),
        (''starts_with'', \<lambda>L a b.
           if truthy a
           then (case b of PStr p \<Rightarrow> Inr (prefix p (py_str L a)) | _ \<Rightarrow> Inl TypeError)
           else Inr False),
        (''ends_with'', \<lambda>L a b.
           if truthy a
           then (case b of PStr p \<Rightarrow> Inr (suffix p (py_str L a)) | _ \<Rightarrow> Inl TypeError)
           else Inr False)]
       name"

text \<open>\<open>int(x)\<close> and \<open>float(x)\<close> on a value; a float is cut towards zero.\<close>

definition py_int :: "pyval \<Rightarrow> py_exn + pyval" where
  "py_int x =
     (case x of
        PBool b \<Rightarrow> Inr (PInt (if b then 1 else 0))
      | PInt i \<Rightarrow> Inr (PInt i)
      | PFloat f \<Rightarrow>
          (case f of
             Finite r \<Rightarrow> Inr (PInt (if r < 0 then - \<lfloor>- r\<rfloor> else \<lfloor>r\<rfloor>))
           | _ \<Rightarrow> Inl ValueError)
      | PStr s \<Rightarrow> (case py_int_of_str s of Inl e \<Rightarrow> Inl e | Inr i \<Rightarrow> Inr (PInt i))
      | _ \<Rightarrow> Inl TypeError)"

definition py_float :: "pylib \<Rightarrow> pyval \<Rightarrow> py_exn + pyval" where
  "py_float L x =
     (case x of
        PBool b \<Rightarrow> Inr (PFloat (Finite (if b then 1 else 0)))
      | PInt i \<Rightarrow> Inr (PFloat (Finite (of_int i)))
      | PFloat f \<Rightarrow> Inr (PFloat f)
      | PStr s \<Rightarrow> (case float_of_str L s of None \<Rightarrow> Inl ValueError
                    | Some f \<Rightarrow> Inr (PFloat f))
      | _ \<Rightarrow> Inl TypeError)"

definition TRANSFORMS :: "string \<Rightarrow> (pylib \<Rightarrow> pyval \<Rightarrow> py_exn + pyval) option" where
  "TRANSFORMS name =
     map_of
       [(''len'', \<lambda>L x.
           if truthy x
           then (case py_len x of Inl e \<Rightarrow> Inl e | Inr n \<Rightarrow> Inr (PInt (int n)))
           else Inr (PInt 0)),
        (''lower'', \<lambda>L x. Inr (case x of PStr s \<Rightarrow> PStr (py_lower s) | _ \<Rightarrow> x)),
        (''upper'', \<lambda>L x. Inr (case x of PStr s \<Rightarrow> PStr (py_upper s) | _ \<Rightarrow> x)),
        (''strip'', \<lambda>L x. Inr (case x of PStr s \<Rightarrow> PStr (py_strip s) | _ \<Rightarrow> x)),
        (''count'', \<lambda>L x. Inr (case py_len x of Inl e \<Rightarrow> PInt 0 | Inr n \<Rightarrow> PInt (int n))),
        (''bool'', \<lambda>L x. Inr (PBool (truthy x))),
        (''int'', \<lambda>L x. if truthy x then py_int x else Inr (PInt 0)),
        (''float'', \<lambda>L x. if truthy x then py_float L x else Inr (PFloat (Finite 0)))]
       name"

text \<open>
  \<open>get_nested_value\<close>: the loop over the keys of the dotted path. A key missing
  from a dictionary gives null and the loop goes on; an index out of range, a key that
  is not a number on a list, or any other value ends it with null.
\<close>

fun walk_keys :: "pyval \<Rightarrow> string list \<Rightarrow> pyval" where
  "walk_keys current [] = current"
| "walk_keys current (k # ks) =
     (case current of
        PDict d \<Rightarrow> walk_keys (case map_of d k of None \<Rightarrow> PNone | Some v \<Rightarrow> v) ks
      | PList xs \<Rightarrow>
          (if isdigit k then
             (if nat_of_digits k < length xs then walk_keys (xs ! nat_of_digits k) ks
              else PNone)
           else PNone)
      | _ \<Rightarrow> PNone)"

definition get_nested_value :: "(string \<times> pyval) list \<Rightarrow> string \<Rightarrow> pyval" where
  "get_nested_value data p = walk_keys (PDict data) (py_split CHR ''.'' p)"

definition apply_transform :: "pylib \<Rightarrow> pyval \<Rightarrow> string option \<Rightarrow> pyval" where
  "apply_transform L v tr =
     (case tr of
        None \<Rightarrow> v
      | Some name \<Rightarrow>
          (case TRANSFORMS name of
             None \<Rightarrow> v
           | Some fn \<Rightarrow> (case fn L v of Inl e \<Rightarrow> v | Inr r \<Rightarrow> r)))"

text \<open>
  \<open>evaluate_condition\<close>: \<open>TypeError\<close> and \<open>AttributeError\<close> of the operator give
  false; any other exception leaves the method (\<open>Inl\<close>).
\<close>

definition evaluate_condition ::
  "pylib \<Rightarrow> RuleCondition \<Rightarrow> (string \<times> pyval) list \<Rightarrow> py_exn + bool" where
  "evaluate_condition L cond page_data =
     (let raw_value = get_nested_value page_data (field cond);
          v = apply_transform L raw_value (transform cond)
      in case OPERATORS (operator cond) of
           None \<Rightarrow> Inr False
         | Some op_fn \<Rightarrow>
            (case op_fn L v (value' cond) of
               Inr b \<Rightarrow> Inr b
             | Inl e \<Rightarrow> if e = TypeError \<or> e = AttributeError then Inr False else Inl e))"

fun evaluate_conditions ::
  "pylib \<Rightarrow> RuleCondition list \<Rightarrow> (string \<times> pyval) list \<Rightarrow> py_exn + bool list" where
  "evaluate_conditions L [] page_data = Inr []"
| "evaluate_conditions L (c # cs) page_data =
     (case evaluate_condition L c page_data of
        Inl e \<Rightarrow> Inl e
      | Inr b \<Rightarrow>
         (case evaluate_conditions L cs page_data of
            Inl e \<Rightarrow> Inl e
          | Inr bs \<Rightarrow> Inr (b # bs)))"

definition evaluate_rule :: "pylib \<Rightarrow> Rule \<Rightarrow> (string \<times> pyval) list \<Rightarrow> py_exn + bool" where
  "evaluate_rule L rule page_data =
     (case evaluate_conditions L (conditions rule) page_data of
        Inl e \<Rightarrow> Inl e
      | Inr results \<Rightarrow>
          if condition_logic rule = ''AND'' then Inr (list_all (\<lambda>b. b) results)
          else if condition_logic rule = ''OR'' then Inr (list_ex (\<lambda>b. b) results)
          else Inr False)"

section \<open>Score formulas (app/core/rule_engine.py)\<close>

definition SEVERITY_WEIGHTS :: "Severity \<Rightarrow> rat" where
  "SEVERITY_WEIGHTS s =
     (case s of CRITICAL \<Rightarrow> 25 | HIGH \<Rightarrow> 15 | MEDIUM \<Rightarrow> 8 | LOW \<Rightarrow> 3 | INFO \<Rightarrow> 0)"

text \<open>
  In both functions the divisor is a \<open>max(1, _)\<close> or \<open>max(_, 1)\<close>, so the divisions
  cannot raise.
\<close>

definition calculate_category_score :: "Issue list \<Rightarrow> nat \<Rightarrow> nat \<Rightarrow> rat" where
  "calculate_category_score iss total_checks n_pages =
     (if total_checks = 0 then 100
      else
        let penalty = fold (\<lambda>issue pen.
                        let weight = SEVERITY_WEIGHTS (severity issue);
                            coverage = min 1 (fl (of_nat (affected_count issue)
                                                  / of_nat (max 1 n_pages)))
                        in fl (pen + fl (weight * fl (0.5 + fl (0.5 * coverage))))) iss 0;
            max_penalty = fl ((25 + 15 + 8 + 3 + 0) * of_nat (min total_checks 10));
            sc = max 0 (fl (100 - fl (fl (penalty / max max_penalty 1) * 100)))
        in float_round sc 2)"

definition severity_multipliers :: "Severity \<Rightarrow> rat" where
  "severity_multipliers s =
     (case s of CRITICAL \<Rightarrow> 1.0 | HIGH \<Rightarrow> 0.75 | MEDIUM \<Rightarrow> 0.50 | LOW \<Rightarrow> 0.25 | INFO \<Rightarrow> 0.0)"

definition calculate_impact_score :: "Severity \<Rightarrow> nat \<Rightarrow> nat \<Rightarrow> rat \<Rightarrow> rat" where
  "calculate_impact_score sev affected total_pages rule_impact_score =
     (let multiplier = severity_multipliers sev;
          coverage = min 1 (fl (of_nat affected / of_nat (max 1 total_pages)));
          impact = fl (fl (rule_impact_score * multiplier)
                       * fl (fl 0.3 + fl (fl 0.7 * coverage)))
      in float_round (min 100 impact) 2)"

section \<open>On-page analyzer (app/engines/onpage/engine.py)\<close>

definition TITLE_MIN_LENGTH :: nat where "TITLE_MIN_LENGTH = 30"
definition TITLE_MAX_LENGTH :: nat where "TITLE_MAX_LENGTH = 60"
definition META_DESC_MIN_LENGTH :: nat where "META_DESC_MIN_LENGTH = 70"
definition META_DESC_MAX_LENGTH :: nat where "META_DESC_MAX_LENGTH = 160"
definition URL_MAX_LENGTH :: nat where "URL_MAX_LENGTH = 115"
definition MIN_WORD_COUNT :: nat where "MIN_WORD_COUNT = 300"

text \<open>\<open>s.split()\<close>: the maximal runs of characters that are not white space.\<close>

fun split_ws_from :: "string \<Rightarrow> string \<Rightarrow> string list" where
  "split_ws_from [] cur = (if cur = [] then [] else [cur])"
| "split_ws_from (c # cs) cur =
     (if is_space c then (if cur = [] then split_ws_from cs [] else cur # split_ws_from cs [])
      else split_ws_from cs (cur @ [c]))"

definition py_split_ws :: "string \<Rightarrow> string list" where
  "py_split_ws s = split_ws_from s []"

text \<open>\<open>sum(int(p.meta.get(key, 0)) for p in ps)\<close>.\<close>

fun sum_int_meta :: "string \<Rightarrow> PageData list \<Rightarrow> py_exn + int" where
  "sum_int_meta k [] = Inr 0"
| "sum_int_meta k (p # ps) =
     (case (case meta p k of None \<Rightarrow> Inr 0 | Some s \<Rightarrow> py_int_of_str s) of
        Inl e \<Rightarrow> Inl e
      | Inr n \<Rightarrow> (case sum_int_meta k ps of Inl e \<Rightarrow> Inl e | Inr m \<Rightarrow> Inr (n + m)))"

text \<open>The lists that the loop over the pages fills.\<close>

record OnPageLists =
  titles :: "string list"
  meta_descs :: "string list"
  missing_title :: "PageData list"
  short_title :: "PageData list"
  long_title :: "PageData list"
  missing_meta :: "PageData list"
  short_meta :: "PageData list"
  long_meta :: "PageData list"
  missing_h1 :: "PageData list"
  multiple_h1 :: "PageData list"
  missing_alt :: "PageData list"
  thin_content :: "PageData list"
  long_urls :: "PageData list"
  dynamic_urls :: "PageData list"
  uppercase_urls :: "PageData list"

definition empty_lists :: OnPageLists where
  "empty_lists =
     \<lparr> titles = [], meta_descs = [], missing_title = [], short_title = [], long_title = [],
       missing_meta = [], short_meta = [], long_meta = [], missing_h1 = [], multiple_h1 = [],
       missing_alt = [], thin_content = [], long_urls = [], dynamic_urls = [],
       uppercase_urls = [] \<rparr>"

definition app_if :: "bool \<Rightarrow> 'a \<Rightarrow> 'a list \<Rightarrow> 'a list" where
  "app_if b x xs = (if b then xs @ [x] else xs)"

text \<open>
  One round of the loop. The page object is shared by the lists and by
  \<open>site_data.pages\<close>, and the round writes \<open>images_missing_alt\<close> and \<open>word_count\<close> into
  its \<open>meta\<close>: the lists hold the page as the round leaves it, which is also returned.
  A page without HTML is skipped. \<open>urlparse\<close> may raise \<open>ValueError\<close>.
\<close>

definition onpage_page ::
  "pylib \<Rightarrow> PageData \<Rightarrow> OnPageLists \<Rightarrow> py_exn + (PageData \<times> OnPageLists)" where
  "onpage_page L page acc =
     (if html page = [] then Inr (page, acc)
      else
        (let soup = BeautifulSoup L (html page);
             ttl = py_strip (case meta page ''title'' of None \<Rightarrow> [] | Some t \<Rightarrow> t);
             meta_desc = py_strip (case meta page ''description'' of None \<Rightarrow> [] | Some t \<Rightarrow> t);
             no_alt = filter (\<lambda>img. case img ''alt'' of None \<Rightarrow> True | Some a \<Rightarrow> a = []) (imgs soup);
             word_count = length (py_split_ws (text_content page));
             meta1 = (if no_alt \<noteq> []
                      then (meta page) (''images_missing_alt'' \<mapsto> str_nat (length no_alt))
                      else meta page);
             page' = page \<lparr> meta := meta1 (''word_count'' \<mapsto> str_nat word_count) \<rparr>
         in case urlparse L (PageData.url page) [] of
              Inl e \<Rightarrow> Inl e
            | Inr parsed \<Rightarrow>
               Inr (page',
                 acc \<lparr> titles := app_if (ttl \<noteq> []) ttl (titles acc),
                       meta_descs := app_if (meta_desc \<noteq> []) meta_desc (meta_descs acc),
                       missing_title := app_if (ttl = []) page' (missing_title acc),
                       short_title := app_if (ttl \<noteq> [] \<and> length ttl < TITLE_MIN_LENGTH)
                                        page' (short_title acc),
                       long_title := app_if (ttl \<noteq> [] \<and> \<not> length ttl < TITLE_MIN_LENGTH
                                             \<and> length ttl > TITLE_MAX_LENGTH)
                                        page' (long_title acc),
                       missing_meta := app_if (meta_desc = []) page' (missing_meta acc),
                       short_meta := app_if (meta_desc \<noteq> []
                                             \<and> length meta_desc < META_DESC_MIN_LENGTH)
                                        page' (short_meta acc),
                       long_meta := app_if (meta_desc \<noteq> []
                                            \<and> \<not> length meta_desc < META_DESC_MIN_LENGTH
                                            \<and> length meta_desc > META_DESC_MAX_LENGTH)
                                        page' (long_meta acc),
                       missing_h1 := app_if (h1_tags soup = 0) page' (missing_h1 acc),
                       multiple_h1 := app_if (h1_tags soup > 1) page' (multiple_h1 acc),
                       missing_alt := app_if (no_alt \<noteq> []) page' (missing_alt acc),
                       thin_content := app_if (word_count < MIN_WORD_COUNT) page' (thin_content acc),
                       long_urls := app_if (length (PageData.url page) > URL_MAX_LENGTH)
                                      page' (long_urls acc),
                       dynamic_urls := app_if (length (py_split CHR ''&'' (query parsed)) > 3)
                                         page' (dynamic_urls acc),
                       uppercase_urls := app_if (ParseResult.path parsed
                                                   \<noteq> py_lower (ParseResult.path parsed))
                                           page' (uppercase_urls acc) \<rparr>)))"

fun onpage_loop ::
  "pylib \<Rightarrow> PageData list \<Rightarrow> OnPageLists \<Rightarrow> py_exn + (PageData list \<times> OnPageLists)" where
  "onpage_loop L [] acc = Inr ([], acc)"
| "onpage_loop L (page # rest) acc =
     (case onpage_page L page acc of
        Inl e \<Rightarrow> Inl e
      | Inr (page', acc') \<Rightarrow>
         (case onpage_loop L rest acc' of
            Inl e \<Rightarrow> Inl e
          | Inr (pages', acc'') \<Rightarrow> Inr (page' # pages', acc'')))"

text \<open>
  An \<open>Issue(...)\<close> of the on-page engine: category \<open>ON_PAGE\<close>, the first 50 URLs of the
  affected pages, their number, and the default effort score.
\<close>

definition onpage_issue ::
  "string \<Rightarrow> string \<Rightarrow> string \<Rightarrow> Severity \<Rightarrow> PageData list \<Rightarrow> rat \<Rightarrow> string \<Rightarrow> string
     \<Rightarrow> (string \<times> pyval) list \<Rightarrow> Issue" where
  "onpage_issue rid ttl descr sev affected imp rec doc md =
     \<lparr> rule_id = rid,
       title = ttl,
       description = descr,
       severity = sev,
       category = ON_PAGE,
       affected_urls = map PageData.url (take 50 affected),
       affected_count = length affected,
       impact_score = imp,
       effort_score = 5,
       recommendation = rec,
       documentation_url = doc,
       metadata = md \<rparr>"

text \<open>The distinct elements of a list in the order of their first occurrence, as the
  keys of a \<open>Counter\<close>.\<close>

definition counter_keys :: "string list \<Rightarrow> string list" where
  "counter_keys xs = rev (remdups (rev xs))"

definition emit :: "'a list \<Rightarrow> Issue \<Rightarrow> Issue list" where
  "emit affected issue = (if affected \<noteq> [] then [issue] else [])"

text \<open>
  The issue creation of \<open>run\<close>, from the lists, the filtered pages, \<open>total_pages\<close> and
  the number of images without alt text.
\<close>

definition onpage_issues :: "OnPageLists \<Rightarrow> PageData list \<Rightarrow> nat \<Rightarrow> int \<Rightarrow> Issue list" where
  "onpage_issues acc ps total_pages total_missing =
     (let duplicate_titles = filter (\<lambda>t. count_list (titles acc) t > 1) (counter_keys (titles acc));
          dup_title_urls = filter (\<lambda>p. (case meta p ''title'' of None \<Rightarrow> [] | Some t \<Rightarrow> t)
                                          \<in> set duplicate_titles) ps;
          duplicate_descs = filter (\<lambda>t. count_list (meta_descs acc) t > 1)
                              (counter_keys (meta_descs acc));
          dup_desc_urls = filter (\<lambda>p. (case meta p ''description'' of None \<Rightarrow> [] | Some t \<Rightarrow> t)
                                         \<in> set duplicate_descs) ps
      in emit (missing_title acc)
           (onpage_issue ''onpage-missing-title'' ''Pages missing title tags''
              (str_nat (length (missing_title acc)) @ '' pages have no title tag.'')
              CRITICAL (missing_title acc)
              (calculate_impact_score CRITICAL (length (missing_title acc)) total_pages 95.0)
              ''Add unique, descriptive title tags (30-60 chars) to every page.''
              ''https://developers.google.com/search/docs/appearance/title-link'' [])
       @ emit dup_title_urls
           (onpage_issue ''onpage-duplicate-title'' ''Duplicate title tags across pages''
              (str_nat (length dup_title_urls) @ '' pages share title tags with other pages.'')
              HIGH dup_title_urls
              (calculate_impact_score HIGH (length dup_title_urls) total_pages 75.0)
              ''Write unique title tags for every page. Include target keywords.'' []
              [(''duplicates'',
                  PDict (map (\<lambda>t. (t, PInt (int (count_list (titles acc) t))))
                           (take 10 duplicate_titles)))])
       @ emit (short_title acc)
           (onpage_issue ''onpage-short-title'' ''Title tags too short''
              (str_nat (length (short_title acc)) @ '' pages have title tags under ''
                 @ str_nat TITLE_MIN_LENGTH @ '' characters.'')
              MEDIUM (short_title acc)
              (calculate_impact_score MEDIUM (length (short_title acc)) total_pages 55.0)
              (''Expand title tags to '' @ str_nat TITLE_MIN_LENGTH @ ''-''
                 @ str_nat TITLE_MAX_LENGTH @ '' characters.'') [] [])
       @ emit (long_title acc)
           (onpage_issue ''onpage-long-title'' ''Title tags too long (will be truncated)''
              (str_nat (length (long_title acc)) @ '' pages have title tags over ''
                 @ str_nat TITLE_MAX_LENGTH @ '' characters.'')
              MEDIUM (long_title acc)
              (calculate_impact_score MEDIUM (length (long_title acc)) total_pages 45.0)
              (''Trim title tags to under '' @ str_nat TITLE_MAX_LENGTH @ '' characters.'') [] [])
       @ emit (missing_meta acc)
           (onpage_issue ''onpage-missing-meta-description'' ''Pages missing meta descriptions''
              (str_nat (length (missing_meta acc)) @ '' pages have no meta description tag.'')
              HIGH (missing_meta acc)
              (calculate_impact_score HIGH (length (missing_meta acc)) total_pages 70.0)
              ''Write compelling meta descriptions (70-160 chars) to improve CTR from search results.''
              [] [])
       @ emit dup_desc_urls
           (onpage_issue ''onpage-duplicate-meta-description'' ''Duplicate meta descriptions''
              (str_nat (length dup_desc_urls) @ '' pages share identical meta descriptions.'')
              MEDIUM dup_desc_urls
              (calculate_impact_score MEDIUM (length dup_desc_urls) total_pages 50.0)
              ''Write unique meta descriptions for every page.'' [] [])
       @ emit (missing_h1 acc)
           (onpage_issue ''onpage-missing-h1'' ''Pages missing H1 heading''
              (str_nat (length (missing_h1 acc)) @ '' pages have no H1 heading.'')
              HIGH (missing_h1 acc)
              (calculate_impact_score HIGH (length (missing_h1 acc)) total_pages 65.0)
              ''Add a single, keyword-rich H1 heading to every page.'' [] [])
       @ emit (multiple_h1 acc)
           (onpage_issue ''onpage-multiple-h1'' ''Pages with multiple H1 headings''
              (str_nat (length (multiple_h1 acc)) @ '' pages have more than one H1 heading.'')
              MEDIUM (multiple_h1 acc)
              (calculate_impact_score MEDIUM (length (multiple_h1 acc)) total_pages 40.0)
              ''Use only one H1 per page. Use H2-H6 for subheadings.'' [] [])
       @ emit (missing_alt acc)
           (onpage_issue ''onpage-missing-alt-text'' ''Images missing alt text''
              ((if total_missing < 0 then ''-'' else []) @ str_nat (nat \<bar>total_missing\<bar>)
                 @ '' images across '' @ str_nat (length (missing_alt acc))
                 @ '' pages are missing alt attributes.'')
              MEDIUM (missing_alt acc)
              (calculate_impact_score MEDIUM (length (missing_alt acc)) total_pages 45.0)
              (''Add descriptive alt text to all meaningful images. Use empty alt=''
                 @ [CHR 0x27, CHR 0x27] @ '' for decorative images.'') []
              [(''total_images_missing_alt'', PInt total_missing)])
       @ emit (thin_content acc)
           (onpage_issue ''onpage-thin-content'' ''Pages with thin content''
              (str_nat (length (thin_content acc)) @ '' pages have fewer than ''
                 @ str_nat MIN_WORD_COUNT @ '' words.'')
              MEDIUM (thin_content acc)
              (calculate_impact_score MEDIUM (length (thin_content acc)) total_pages 55.0)
              (''Expand content to at least '' @ str_nat MIN_WORD_COUNT
                 @ '' words. Focus on depth and value.'') [] [])
       @ emit (long_urls acc)
           (onpage_issue ''onpage-long-urls'' ''URLs exceeding recommended length''
              (str_nat (length (long_urls acc)) @ '' pages have URLs longer than ''
                 @ str_nat URL_MAX_LENGTH @ '' characters.'')
              LOW (long_urls acc)
              (calculate_impact_score LOW (length (long_urls acc)) total_pages 25.0)
              ''Keep URLs short, descriptive, and keyword-rich.'' [] [])
       @ emit (uppercase_urls acc)
           (onpage_issue ''onpage-uppercase-urls'' ''URLs containing uppercase characters''
              (str_nat (length (uppercase_urls acc))
                 @ '' pages have uppercase letters in their URL paths.'')
              LOW (uppercase_urls acc)
              20.0
              ''Use only lowercase URLs. Redirect uppercase variants to lowercase equivalents.''
              [] []))"

definition onpage_run :: "pylib \<Rightarrow> SiteData \<Rightarrow> py_exn + AuditResult" where
  "onpage_run L site_data =
     (let ps = filter (\<lambda>p. PageData.status_code p = 200
                            \<and> py_in_str ''text/html'' (content_type p)) (pages site_data);
          total_pages = max 1 (length ps)
      in case onpage_loop L ps empty_lists of
           Inl e \<Rightarrow> Inl e
         | Inr (ps', acc) \<Rightarrow>
            (case sum_int_meta ''images_missing_alt'' (missing_alt acc) of
               Inl e \<Rightarrow> Inl e
             | Inr total_missing \<Rightarrow>
                (let iss = onpage_issues acc ps' total_pages total_missing;
                     sc = calculate_category_score iss 12 total_pages
                 in case sum_int_meta ''word_count'' ps' of
                      Inl e \<Rightarrow> Inl e
                    | Inr words \<Rightarrow>
                       Inr \<lparr> engine_name = ''onpage'',
                             audit_id = SiteData.audit_id site_data,
                             status = SUCCESS,
                             category = ON_PAGE,
                             score = sc,
                             grade = calculate_grade sc,
                             issues = iss,
                             recommendations = [],
                             metadata =
                               [(''avg_title_length'',
                                   PFloat (Finite (of_nat (sum_list (map length (titles acc)))
                                                   / of_nat (max 1 (length (titles acc)))))),
                                (''avg_word_count'',
                                   PFloat (Finite (of_int words / of_nat total_pages))),
                                (''unique_titles'', PInt (int (card (set (titles acc))))),
                                (''total_titles'', PInt (int (length (titles acc))))],
                             execution_time_ms = 0,
                             pages_analyzed = total_pages,
                             error_message = None \<rparr>)))"


section \<open>Prioritization engine (app/engines/prioritization/engine.py)\<close>

definition PRIORITY_SEVERITY_WEIGHTS :: "Severity \<Rightarrow> rat" where
  "PRIORITY_SEVERITY_WEIGHTS s =
     (case s of CRITICAL \<Rightarrow> 100 | HIGH \<Rightarrow> 75 | MEDIUM \<Rightarrow> 50 | LOW \<Rightarrow> 25 | INFO \<Rightarrow> 0)"

definition TRAFFIC_POTENTIAL_BY_SEVERITY :: "Severity \<Rightarrow> rat" where
  "TRAFFIC_POTENTIAL_BY_SEVERITY s =
     (case s of CRITICAL \<Rightarrow> 80 | HIGH \<Rightarrow> 60 | MEDIUM \<Rightarrow> 35 | LOW \<Rightarrow> 15 | INFO \<Rightarrow> 0)"

text \<open>
  The step texts of \<open>IMPLEMENTATION_STEPS\<close>, with the arrow of the third
  \<open>tech-http-pages\<close> step written \<open>->\<close>.
\<close>

definition GENERIC_STEPS :: "string list" where
  "GENERIC_STEPS =
     [''Review the affected URLs listed in the audit report'',
      ''Implement the recommended fix on the highest-traffic pages first'',
      ''Validate the fix using Google Search Console or re-crawl'',
      ''Monitor rankings for affected pages over the next 4-8 weeks'']"

definition IMPLEMENTATION_STEPS :: "string \<rightharpoonup> string list" where
  "IMPLEMENTATION_STEPS =
     [''onpage-missing-title'' \<mapsto>
        [''Identify all pages without title tags using the affected URLs list'',
         ''Research target keywords for each page category'',
         ''Write unique titles following the formula: Primary Keyword | Secondary Keyword | Brand'',
         ''Keep titles between 30-60 characters'',
         ''Deploy via CMS or template modification'',
         ''Verify with a re-crawl within 48 hours''],
      ''onpage-missing-meta-description'' \<mapsto>
        [''Export the list of affected pages from the audit report'',
         ''Write compelling meta descriptions that include the primary keyword'',
         ''Target 70-160 characters with a clear value proposition'',
         ''Include a soft call-to-action where appropriate'',
         ''Update via CMS or developer template''],
      ''tech-http-pages'' \<mapsto>
        [''Purchase and install an SSL certificate (Let'' @ [CHR 0x27] @ ''s Encrypt for free, or premium CA)'',
         ''Configure web server to redirect HTTP -> HTTPS (301)'',
         ''Update internal links to use HTTPS'',
         ''Update canonical tags to HTTPS versions'',
         ''Verify in Google Search Console that HTTPS version is preferred'',
         ''Monitor for mixed content warnings after switch''],
      ''crawl-4xx-pages'' \<mapsto>
        [''Export all 4xx URLs from the audit report'',
         ''For 404s with inbound links: implement 301 redirects to the most relevant page'',
         ''For 404s with no external links: update or remove internal links pointing to them'',
         ''Set up monitoring to catch future 404s early'',
         ''Submit a recrawl request via Google Search Console after fixes''],
      ''crawl-duplicate-content'' \<mapsto>
        [''Identify which version of the duplicate should be canonical'',
         ''Add rel=canonical tags pointing to the preferred URL'',
         ''Alternatively, implement 301 redirects from duplicate to canonical'',
         ''Consolidate PageRank by removing internal links to non-canonical versions'',
         ''For e-commerce sites, review faceted navigation as a common cause''],
      ''onpage-missing-h1'' \<mapsto>
        [''Audit each affected page for its primary content theme'',
         ''Write a clear H1 that reflects the page'' @ [CHR 0x27] @ ''s primary keyword focus'',
         ''Ensure the H1 is different from the page title (complementary, not identical)'',
         ''Add via CMS or template change''],
      ''onpage-thin-content'' \<mapsto>
        [''Prioritize high-traffic and high-value pages first'',
         ''Research what users are looking for on each page (search intent)'',
         ''Expand content by adding FAQs, examples, tables, or detailed explanations'',
         ''Target at minimum 500-1000 words for competitive keywords'',
         ''Add relevant internal links to related content'',
         ''Monitor rankings after content updates'']]"

definition calculate_priority_score :: "Issue \<Rightarrow> rat" where
  "calculate_priority_score issue =
     (let impact = impact_score issue;
          traffic_potential = TRAFFIC_POTENTIAL_BY_SEVERITY (severity issue);
          effort_ease = (10 - effort_score issue) * 10;
          severity_score = PRIORITY_SEVERITY_WEIGHTS (severity issue);
          priority = impact * 0.40 + traffic_potential * 0.25 + effort_ease * 0.20
                     + severity_score * 0.15
      in py_round priority 2)"

definition effort_label :: "rat \<Rightarrow> string" where
  "effort_label sc = (if sc \<le> 3 then ''low'' else if sc \<le> 7 then ''medium'' else ''high'')"

definition impact_label :: "rat \<Rightarrow> string" where
  "impact_label sc = (if sc \<ge> 70 then ''high'' else if sc \<ge> 40 then ''medium'' else ''low'')"

text \<open>
  \<open>list.sort(key=k, reverse=True)\<close>: CPython reverses the list, sorts it stably in
  ascending key order and reverses it again, so equal keys keep their original order.
\<close>

definition py_sort_reverse :: "('a \<Rightarrow> rat) \<Rightarrow> 'a list \<Rightarrow> 'a list" where
  "py_sort_reverse k xs = rev (sort_key k (rev xs))"

text \<open>The body of the loop over \<open>enumerate(scored_issues[:50], start=1)\<close>.\<close>

definition make_recommendation :: "int \<Rightarrow> nat \<Rightarrow> Issue \<times> rat \<Rightarrow> Recommendation" where
  "make_recommendation monthly rank scored =
     (let issue = fst scored;
          steps = (case IMPLEMENTATION_STEPS (rule_id issue) of
                     None \<Rightarrow> GENERIC_STEPS | Some s \<Rightarrow> s);
          traffic_gain_pct = TRAFFIC_POTENTIAL_BY_SEVERITY (severity issue) / 100;
          estimated_traffic = of_int monthly * traffic_gain_pct * (impact_score issue / 100);
          estimated_revenue = estimated_traffic * 0.02 * 100
      in \<lparr> issue_id = rule_id issue,
           priority_rank = rank,
           title = Issue.title issue,
           description = (if recommendation issue \<noteq> [] then recommendation issue
                          else Issue.description issue),
           effort = effort_label (effort_score issue),
           impact = impact_label (impact_score issue),
           estimated_traffic_gain = py_round estimated_traffic 0,
           estimated_revenue_impact = py_round estimated_revenue 2,
           implementation_steps = steps \<rparr>)"

definition collect_issues :: "SiteData \<Rightarrow> Issue list" where
  "collect_issues site_data =
     concat (map issues (case engine_results (settings site_data) of
                           None \<Rightarrow> [] | Some rs \<Rightarrow> rs))"

definition scored_issues :: "SiteData \<Rightarrow> (Issue \<times> rat) list" where
  "scored_issues site_data =
     py_sort_reverse snd (map (\<lambda>issue. (issue, calculate_priority_score issue))
                              (collect_issues site_data))"

definition prioritization_run :: "SiteData \<Rightarrow> AuditResult" where
  "prioritization_run site_data =
     (let monthly = (case monthly_traffic (settings site_data) of
                       None \<Rightarrow> 10000 | Some m \<Rightarrow> m);
          all_issues = collect_issues site_data
      in if all_issues = [] then
           \<lparr> engine_name = ''prioritization'',
             audit_id = SiteData.audit_id site_data,
             status = SUCCESS,
             category = TECHNICAL,
             score = 100,
             grade = ''A'',
             issues = [],
             recommendations = [],
             metadata = [],
             execution_time_ms = 0,
             pages_analyzed = 0,
             error_message = None \<rparr>
         else
           (let recs = map (\<lambda>(rank, scored). make_recommendation monthly rank scored)
                           (enumerate 1 (take 50 (scored_issues site_data)))
            in \<lparr> engine_name = ''prioritization'',
                 audit_id = SiteData.audit_id site_data,
                 status = SUCCESS,
                 category = TECHNICAL,
                 score = 100,
                 grade = ''N/A'',
                 issues = all_issues,
                 recommendations = recs,
                 metadata =
                   [(''total_issues_prioritized'', PInt (int (length all_issues))),
                    (''quick_wins'',
                       PInt (int (length (filter (\<lambda>r. effort r = ''low''
                                  \<and> (impact r = ''medium'' \<or> impact r = ''high'')) recs)))),
                    (''high_effort_high_impact'',
                       PInt (int (length (filter (\<lambda>r. effort r = ''high''
                                  \<and> impact r = ''high'') recs))))],
                 execution_time_ms = 0,
                 pages_analyzed = length (pages site_data),
                 error_message = None \<rparr>))"

section \<open>Crawl analysis and score (app/engines/crawler/engine.py)\<close>

text \<open>\<open>not p.canonical_url\<close>: the canonical URL is \<open>None\<close> or the empty string.\<close>

definition has_canonical_url :: "PageData \<Rightarrow> bool" where
  "has_canonical_url p = (case canonical_url p of None \<Rightarrow> False | Some c \<Rightarrow> c \<noteq> [])"

text \<open>
  The \<open>Issue(...)\<close> calls of \<open>_analyze_crawl_issues\<close> differ in six arguments; the
  others take the defaults of the model (\<open>effort_score = 5.0\<close>, no documentation URL,
  empty metadata) and the category \<open>CRAWLABILITY\<close>.
\<close>

definition crawl_issue ::
  "string \<Rightarrow> string \<Rightarrow> string \<Rightarrow> Severity \<Rightarrow> PageData list \<Rightarrow> rat \<Rightarrow> string \<Rightarrow> Issue" where
  "crawl_issue rid ttl descr sev affected imp rec =
     \<lparr> rule_id = rid,
       title = ttl,
       description = descr,
       severity = sev,
       category = CRAWLABILITY,
       affected_urls = map url (take 50 affected),
       affected_count = length affected,
       impact_score = imp,
       effort_score = 5,
       recommendation = rec,
       documentation_url = [],
       metadata = [] \<rparr>"

definition analyze_crawl_issues :: "PageData list \<Rightarrow> string \<Rightarrow> Issue list" where
  "analyze_crawl_issues ps rooturl =
     (let error_4xx = filter (\<lambda>p. 400 \<le> status_code p \<and> status_code p < 500) ps;
          error_5xx = filter (\<lambda>p. status_code p \<ge> 500) ps;
          duplicates = filter (\<lambda>p. meta p ''is_duplicate_content'' = Some ''true'') ps;
          no_canonical = filter (\<lambda>p. status_code p = 200 \<and> \<not> has_canonical_url p) ps;
          canonical_mismatch = filter (\<lambda>p. has_canonical_url p
                                  \<and> canonical_url p \<noteq> Some (url p)
                                  \<and> status_code p = 200) ps;
          slow_pages = filter (\<lambda>p. load_time_ms p > 5000 \<and> status_code p = 200) ps
      in (if error_4xx \<noteq> [] then
            [crawl_issue ''crawl-4xx-pages'' ''Pages returning 4xx errors''
               (str_nat (length error_4xx) @ '' pages return client error status codes.'')
               HIGH error_4xx (min 100 (of_nat (length error_4xx) * 2.0))
               ''Fix or redirect broken URLs. Use 301 redirects for permanently moved content.'']
          else [])
       @ (if error_5xx \<noteq> [] then
            [crawl_issue ''crawl-5xx-pages'' ''Pages returning 5xx server errors''
               (str_nat (length error_5xx) @ '' pages return server error status codes.'')
               CRITICAL error_5xx (min 100 (of_nat (length error_5xx) * 3.0))
               ''Investigate server errors immediately. These pages are unindexable.'']
          else [])
       @ (if duplicates \<noteq> [] then
            [crawl_issue ''crawl-duplicate-content'' ''Duplicate content detected''
               (str_nat (length duplicates) @ '' pages have identical or near-identical content.'')
               MEDIUM duplicates (min 80 (of_nat (length duplicates) * 1.5))
               ''Implement canonical tags or 301 redirects to consolidate duplicate content.'']
          else [])
       @ (if no_canonical \<noteq> [] then
            [crawl_issue ''crawl-missing-canonical'' ''Pages without canonical tags''
               (str_nat (length no_canonical) @ '' pages are missing canonical link elements.'')
               MEDIUM no_canonical (min 60 (of_nat (length no_canonical) * 0.5))
               ''Add self-referencing canonical tags to all indexable pages.'']
          else [])
       @ (if canonical_mismatch \<noteq> [] then
            [crawl_issue ''crawl-canonical-mismatch'' ''Crawled URLs differ from canonical''
               (str_nat (length canonical_mismatch)
                  @ '' crawled URLs point to a different canonical URL, wasting crawl budget.'')
               MEDIUM canonical_mismatch (min 70 (of_nat (length canonical_mismatch) * 1.0))
               ''Ensure internal links point to the canonical version of each URL.'']
          else [])
       @ (if slow_pages \<noteq> [] then
            [crawl_issue ''crawl-slow-pages'' ''Pages with slow server response time''
               (str_nat (length slow_pages) @ '' pages took over 5 seconds to respond.'')
               HIGH slow_pages (min 80 (of_nat (length slow_pages) * 2.0))
               ''Optimize server response time. Target < 200ms TTFB.'']
          else []))"

definition severity_penalties :: "Severity \<Rightarrow> rat" where
  "severity_penalties s =
     (case s of CRITICAL \<Rightarrow> 20 | HIGH \<Rightarrow> 10 | MEDIUM \<Rightarrow> 5 | LOW \<Rightarrow> 2 | INFO \<Rightarrow> 0)"

text \<open>
  \<open>_calculate_crawl_score\<close>. The quotient \<open>successful / total\<close> raises
  \<open>ZeroDivisionError\<close> when \<open>total\<close> is 0; \<open>crawl_score_formula\<close> is the body of the
  function below its first statement, the guard \<open>if not pages: return 0.0\<close>.
\<close>

definition crawl_score_formula :: "PageData list \<Rightarrow> Issue list \<Rightarrow> py_exn + rat" where
  "crawl_score_formula ps iss =
     (let total = length ps;
          successful = length (filter (\<lambda>p. 200 \<le> status_code p \<and> status_code p < 400) ps)
      in case py_truediv (of_nat successful) (of_nat total) of
           Inl e \<Rightarrow> Inl e
         | Inr success_rate \<Rightarrow>
            (let score0 = fl (success_rate * 70)
             in case py_truediv (of_nat (length (filter has_canonical_url ps)))
                                (of_nat (max 1 total)) of
                  Inl e \<Rightarrow> Inl e
                | Inr has_canonical \<Rightarrow>
                   (let score1 = fl (score0 + fl (has_canonical * 20));
                        score2 = fold (\<lambda>issue sc. fl (sc - severity_penalties (severity issue)))
                                   iss score1
                    in Inr (max 0 (min 100 (float_round score2 2))))))"

definition calculate_crawl_score :: "PageData list \<Rightarrow> Issue list \<Rightarrow> py_exn + rat" where
  "calculate_crawl_score ps iss =
     (if ps = [] then Inr 0 else crawl_score_formula ps iss)"

text \<open>
  The end of \<open>CrawlerEngine.run\<close>: the result built from the crawled pages, with the
  crawl statistics as metadata. An exception of the score calculation leaves \<open>run\<close>.
\<close>

definition crawl_audit_result ::
  "SiteData \<Rightarrow> PageData list \<Rightarrow> (string \<times> pyval) list \<Rightarrow> py_exn + AuditResult" where
  "crawl_audit_result site_data crawled_pages stats =
     (let iss = analyze_crawl_issues crawled_pages (root_url site_data)
      in case calculate_crawl_score crawled_pages iss of
           Inl e \<Rightarrow> Inl e
         | Inr sc \<Rightarrow>
             Inr \<lparr> engine_name = ''crawler'',
                   audit_id = SiteData.audit_id site_data,
                   status = SUCCESS,
                   category = CRAWLABILITY,
                   score = sc,
                   grade = calculate_grade sc,
                   issues = iss,
                   recommendations = [],
                   metadata = stats,
                   execution_time_ms = 0,
                   pages_analyzed = length crawled_pages,
                   error_message = None \<rparr>)"

section \<open>The impact formula as the specification states it\<close>

text \<open>
  \<open>clamp(rule_base * severity_mult * (0.3 + 0.7 * coverage), 0, 100)\<close> with
  \<open>coverage = min(1, affected_count / max(1, total_pages))\<close>, and the rule base that
  the on-page engine passes for each rule id.
\<close>

definition clamp :: "rat \<Rightarrow> rat \<Rightarrow> rat \<Rightarrow> rat" where
  "clamp x lo hi = max lo (min hi x)"

definition coverage :: "nat \<Rightarrow> nat \<Rightarrow> rat" where
  "coverage affected total_pages = min 1 (of_nat affected / of_nat (max 1 total_pages))"

definition claimed_severity_mult :: "Severity \<Rightarrow> rat" where
  "claimed_severity_mult s =
     (case s of CRITICAL \<Rightarrow> 1 | HIGH \<Rightarrow> 3 / 4 | MEDIUM \<Rightarrow> 1 / 2 | LOW \<Rightarrow> 1 / 4 | INFO \<Rightarrow> 0)"

definition claimed_impact :: "rat \<Rightarrow> Severity \<Rightarrow> nat \<Rightarrow> nat \<Rightarrow> rat" where
  "claimed_impact rule_base sev affected total_pages =
     clamp (rule_base * claimed_severity_mult sev * (0.3 + 0.7 * coverage affected total_pages)) 0 100"

text \<open>
  The same formula in binary64 arithmetic: every operation is rounded to the nearest
  double, in the order \<open>(rule_base * severity_mult) * (0.3 + 0.7 * coverage)\<close>, and the
  clamped value is rounded to two decimals.
\<close>

definition double_impact :: "rat \<Rightarrow> Severity \<Rightarrow> nat \<Rightarrow> nat \<Rightarrow> rat" where
  "double_impact rule_base sev affected total_pages =
     float_round
       (clamp (fl (fl (rule_base * claimed_severity_mult sev)
                   * fl (fl 0.3 + fl (fl 0.7
                           * min 1 (fl (of_nat affected / of_nat (max 1 total_pages)))))))
              0 100) 2"

definition onpage_rule_base :: "string \<Rightarrow> rat" where
  "onpage_rule_base rid =
     (if rid = ''onpage-missing-title'' then 95
      else if rid = ''onpage-duplicate-title'' then 75
      else if rid = ''onpage-short-title'' then 55
      else if rid = ''onpage-long-title'' then 45
      else if rid = ''onpage-missing-meta-description'' then 70
      else if rid = ''onpage-duplicate-meta-description'' then 50
      else if rid = ''onpage-missing-h1'' then 65
      else if rid = ''onpage-multiple-h1'' then 40
      else if rid = ''onpage-missing-alt-text'' then 45
      else if rid = ''onpage-thin-content'' then 55
      else if rid = ''onpage-long-urls'' then 25
      else 0)"


section \<open>Nesting of sitemap indexes\<close>

text \<open>
  \<open>index_locs\<close> are the sitemaps that a sitemap index at \<open>u\<close> refers to, \<open>urlset_locs\<close> the
  page URLs of a URL sitemap at \<open>u\<close>. \<open>sitemaps_below k u\<close> lists the sitemaps that are
  reached from \<open>u\<close> through a chain of exactly \<open>k\<close> index references; no chain from \<open>u\<close>
  is longer than \<open>d\<close> when \<open>sitemaps_below (Suc d) u\<close> is empty.
\<close>

definition index_locs ::
  "(string \<Rightarrow> py_exn + string list) \<Rightarrow> http_get \<Rightarrow> string \<Rightarrow> string list" where
  "index_locs find_all_loc session_get u =
     (case session_get u of
        Inl e \<Rightarrow> []
      | Inr response \<Rightarrow>
          if Response.status_code response = 200
             \<and> py_in_str ''<sitemapindex'' (resp_text response)
          then (case find_all_loc (resp_text response) of
                  Inl e \<Rightarrow> []
                | Inr locs \<Rightarrow> map py_strip locs)
          else [])"

definition urlset_locs ::
  "(string \<Rightarrow> py_exn + string list) \<Rightarrow> http_get \<Rightarrow> string \<Rightarrow> string list" where
  "urlset_locs find_all_loc session_get u =
     (case session_get u of
        Inl e \<Rightarrow> []
      | Inr response \<Rightarrow>
          if Response.status_code response = 200
             \<and> \<not> py_in_str ''<sitemapindex'' (resp_text response)
             \<and> py_in_str ''<urlset'' (resp_text response)
          then (case find_all_loc (resp_text response) of
                  Inl e \<Rightarrow> []
                | Inr locs \<Rightarrow> map py_strip locs)
          else [])"

fun sitemaps_below ::
  "(string \<Rightarrow> py_exn + string list) \<Rightarrow> http_get \<Rightarrow> nat \<Rightarrow> string \<Rightarrow> string list" where
  "sitemaps_below find_all_loc session_get 0 u = [u]"
| "sitemaps_below find_all_loc session_get (Suc k) u =
     concat (map (sitemaps_below find_all_loc session_get k)
                 (index_locs find_all_loc session_get u))"

section \<open>Operator results on a null left operand\<close>

text \<open>
  The result of each operator of \<open>OPERATORS\<close> when the left operand is \<open>None\<close>, as a
  function of the operator name and the right operand; an unknown operator gives
  false.
\<close>

definition null_operand_result :: "string \<Rightarrow> pyval \<Rightarrow> bool" where
  "null_operand_result opname b =
     (if opname \<in> set [''not_contains'', ''not_matches'', ''not_exists'', ''length_lt''] then True
      else if opname = ''eq'' then b = PNone
      else if opname = ''ne'' then b \<noteq> PNone
      else if opname = ''in'' then (case b of PList xs \<Rightarrow> PNone \<in> set xs | _ \<Rightarrow> False)
      else if opname = ''not_in'' then
        (\<not> truthy b \<or> (case b of PList xs \<Rightarrow> PNone \<notin> set xs | PDict d \<Rightarrow> True | _ \<Rightarrow> False))
      else False)"

section \<open>Concrete inputs\<close>

definition example_lib :: pylib where
  "example_lib =
     \<lparr> valid_bracketed_host = (\<lambda>h. False),
       re_search = (\<lambda>p s. if p = ''('' then Inl ReError else Inr (p = s)),
       repr_of = (\<lambda>v. ''?''),
       float_of_str = (\<lambda>s. None),
       md5_hexdigest = (\<lambda>s. s),
       BeautifulSoup = (\<lambda>h. \<lparr> h1_tags = 0, imgs = [] \<rparr>) \<rparr>"

definition no_settings :: Settings where
  "no_settings = \<lparr> max_pages = None, max_depth = None, concurrency = None,
                    js_render = None, engine_results = None, monthly_traffic = None \<rparr>"

definition example_site :: SiteData where
  "example_site = \<lparr> audit_id = ''audit-1'', site_id = ''site-1'', domain = ''example.com'',
                     root_url = ''https://example.com'', pages = [], sitemap_urls = [],
                     robots_txt = [], crawl_stats = [], settings = no_settings \<rparr>"

text \<open>Two issues of the same severity, impact and effort, told apart by their rule id.\<close>

definition tie_issue :: "string \<Rightarrow> Issue" where
  "tie_issue rid =
     \<lparr> rule_id = rid, title = ''t'', description = ''d'', severity = MEDIUM,
       category = TECHNICAL, affected_urls = [''https://example.com/a''],
       affected_count = 1, impact_score = 50, effort_score = 5,
       recommendation = [], documentation_url = [], metadata = [] \<rparr>"

definition tie_result :: AuditResult where
  "tie_result =
     \<lparr> engine_name = ''technical'', audit_id = ''audit-1'', status = SUCCESS,
       category = TECHNICAL, score = 80, grade = ''B'',
       issues = [tie_issue ''tech-redirect-chains'', tie_issue ''onpage-thin-content''],
       recommendations = [], metadata = [], execution_time_ms = 0, pages_analyzed = 1,
       error_message = None \<rparr>"

definition tie_site :: SiteData where
  "tie_site =
     example_site \<lparr> settings := no_settings \<lparr> engine_results := Some [tie_result] \<rparr> \<rparr>"

text \<open>A host whose robots.txt answers 404, and the parsers the handler then holds.\<close>

definition get404 :: http_get where
  "get404 u = Inr \<lparr> Response.status_code = 404, resp_text = [] \<rparr>"

definition unparsed_robots :: RobotFileParser where
  "unparsed_robots =
     \<lparr> entries = [], sitemaps = [], default_entry = None, disallow_all = False,
       allow_all = False, url = ''https://example.com/robots.txt'', host = ''example.com'',
       path = ''/robots.txt'', last_checked = 0 \<rparr>"

definition default_robots :: RobotFileParser where
  "default_robots =
     \<lparr> entries = [], sitemaps = [], default_entry = None, disallow_all = False,
       allow_all = False, url = [], host = [], path = [], last_checked = 0 \<rparr>"

text \<open>
  Three HTML pages of two words each; one has an upper-case path, one has no title.
  \<open>counted\<close> is a page after the analysis has written its word count.
\<close>

definition html_page :: "string \<Rightarrow> string option \<Rightarrow> PageData" where
  "html_page u ttl =
     \<lparr> PageData.url = u, canonical_url = None, status_code = 200,
       content_type = ''text/html; charset=utf-8'', html = ''<html></html>'',
       text_content = ''hello world'',
       meta = (case ttl of None \<Rightarrow> Map.empty | Some t \<Rightarrow> [''title'' \<mapsto> t]),
       links = [], load_time_ms = 120, depth = 0 \<rparr>"

definition upper_site :: SiteData where
  "upper_site = example_site \<lparr> pages :=
     [html_page ''https://example.com/About'' (Some ''About us''),
      html_page ''https://example.com/b'' None,
      html_page ''https://example.com/c'' (Some ''Contact'')] \<rparr>"

definition counted :: "PageData \<Rightarrow> PageData" where
  "counted p = p \<lparr> meta := (meta p) (''word_count'' \<mapsto> ''2'') \<rparr>"

text \<open>The first two of these pages, and what a run reports: rule ids with counts, and
  the impact scores under one rule id.\<close>

definition two_page_site :: SiteData where
  "two_page_site = example_site \<lparr> pages :=
     [html_page ''https://example.com/About'' (Some ''About us''),
      html_page ''https://example.com/b'' None] \<rparr>"

definition issue_counts :: "py_exn + AuditResult \<Rightarrow> (string \<times> nat) list" where
  "issue_counts res =
     (case res of Inl e \<Rightarrow> [] | Inr r \<Rightarrow> map (\<lambda>i. (rule_id i, affected_count i)) (issues r))"

definition impacts_of :: "string \<Rightarrow> py_exn + AuditResult \<Rightarrow> rat list" where
  "impacts_of rid res =
     (case res of
        Inl e \<Rightarrow> []
      | Inr r \<Rightarrow> map impact_score (filter (\<lambda>i. rule_id i = rid) (issues r)))"


text \<open>Rule conditions on the page title, and pages with and without a title.\<close>

definition null_condition :: "string \<Rightarrow> pyval \<Rightarrow> RuleCondition" where
  "null_condition opname b =
     \<lparr> field = ''meta.title'', operator = opname, value' = b, transform = Some ''strip'' \<rparr>"

definition untitled_page :: "(string \<times> pyval) list" where
  "untitled_page = [(''url'', PStr ''https://example.com/''), (''meta'', PDict [])]"

definition titled_page :: "(string \<times> pyval) list" where
  "titled_page =
     [(''url'', PStr ''https://example.com/''), (''meta'', PDict [(''title'', PStr ''Home'')])]"

definition regex_condition :: "string \<Rightarrow> RuleCondition" where
  "regex_condition pat =
     \<lparr> field = ''meta.title'', operator = ''matches'', value' = PStr pat, transform = None \<rparr>"

text \<open>A chain of four sitemap indexes that ends in a URL sitemap.\<close>

definition sitemap_docs :: "(string \<times> string \<times> string list) list" where
  "sitemap_docs =
     [(''https://example.com/sitemap.xml'', ''<sitemapindex>0'', [''https://example.com/s1.xml'']),
      (''https://example.com/s1.xml'', ''<sitemapindex>1'', [''https://example.com/s2.xml'']),
      (''https://example.com/s2.xml'', ''<sitemapindex>2'', [''https://example.com/s3.xml'']),
      (''https://example.com/s3.xml'', ''<sitemapindex>3'', ['' https://example.com/s4.xml '']),
      (''https://example.com/s4.xml'', ''<urlset>4'', [''https://example.com/deep-page''])]"

definition chain_get :: http_get where
  "chain_get u =
     (case map_of sitemap_docs u of
        None \<Rightarrow> Inr \<lparr> Response.status_code = 404, resp_text = [] \<rparr>
      | Some (content, locs) \<Rightarrow> Inr \<lparr> Response.status_code = 200, resp_text = content \<rparr>)"

definition chain_find_all_loc :: "string \<Rightarrow> py_exn + string list" where
  "chain_find_all_loc content =
     Inr (case map_of (map snd sitemap_docs) content of None \<Rightarrow> [] | Some locs \<Rightarrow> locs)"

section \<open>Verified properties\<close>

text \<open>
  C10. When no engine result carries an issue, the prioritization run returns a result
  with status success, score 100, grade A and empty issue and recommendation lists.
\<close>

theorem prioritization_empty_issues:
  assumes "collect_issues site_data = []"
  shows "status (prioritization_run site_data) = SUCCESS
       \<and> score (prioritization_run site_data) = 100
       \<and> grade (prioritization_run site_data) = ''A''
       \<and> issues (prioritization_run site_data) = []
       \<and> recommendations (prioritization_run site_data) = []"
  using assms by (simp add: prioritization_run_def)

theorem prioritization_empty_issues_witness:
  "collect_issues example_site = []
   \<and> status (prioritization_run example_site) = SUCCESS
   \<and> score (prioritization_run example_site) = 100
   \<and> grade (prioritization_run example_site) = ''A''
   \<and> issues (prioritization_run example_site) = []
   \<and> recommendations (prioritization_run example_site) = []"
proof -
  have h: "collect_issues example_site = []"
    by (simp add: collect_issues_def example_site_def no_settings_def)
  show ?thesis using h prioritization_empty_issues [OF h] by simp
qed

lemma crawl_score_formula_empty: "crawl_score_formula [] iss = Inl ZeroDivisionError"
  by (simp add: crawl_score_formula_def py_truediv_def)

text \<open>
  C9. With no crawled page, \<open>_calculate_crawl_score\<close> returns 0 and does not evaluate the
  success-rate formula, which on the empty list raises \<open>ZeroDivisionError\<close>; the
  crawler's result then has score 0 and grade F.
\<close>

theorem empty_crawl_score_zero:
  "calculate_crawl_score [] iss = Inr 0
   \<and> crawl_score_formula [] iss = Inl ZeroDivisionError
   \<and> (\<exists>r. crawl_audit_result site_data [] stats = Inr r \<and> score r = 0 \<and> grade r = ''F'')"
  by (simp add: calculate_crawl_score_def crawl_audit_result_def calculate_grade_def
        crawl_score_formula_empty)

theorem empty_crawl_score_zero_witness:
  "calculate_crawl_score [] [] = Inr 0
   \<and> crawl_score_formula [] [] = Inl ZeroDivisionError
   \<and> (\<exists>r. crawl_audit_result example_site [] [] = Inr r \<and> score r = 0 \<and> grade r = ''F'')"
  using empty_crawl_score_zero [of "[]" example_site "[]"] by simp

subsection \<open>Prioritization: ranks and order\<close>

lemma py_sort_reverse_sorted: "sorted (rev (map k (py_sort_reverse k xs)))"
  by (simp add: py_sort_reverse_def rev_map)

lemma py_sort_reverse_mset: "mset (py_sort_reverse k xs) = mset xs"
  by (simp add: py_sort_reverse_def)

lemma py_sort_reverse_stable:
  "filter (\<lambda>y. k y = v) (py_sort_reverse k xs) = filter (\<lambda>y. k y = v) xs"
  by (simp add: py_sort_reverse_def rev_filter [symmetric] sort_key_stable)

lemma py_sort_reverse_length: "length (py_sort_reverse k xs) = length xs"
  by (simp add: py_sort_reverse_def)

lemma make_recommendation_rank [simp]: "priority_rank (make_recommendation m r x) = r"
  by (simp add: make_recommendation_def Let_def)

lemma make_recommendation_issue_id [simp]:
  "issue_id (make_recommendation m r x) = rule_id (fst x)"
  by (simp add: make_recommendation_def Let_def)

lemma recommendations_nonempty:
  assumes "collect_issues sd \<noteq> []"
  shows "recommendations (prioritization_run sd) =
         map (\<lambda>(rank, scored). make_recommendation
                (case monthly_traffic (settings sd) of None \<Rightarrow> 10000 | Some m \<Rightarrow> m) rank scored)
             (enumerate 1 (take 50 (scored_issues sd)))"
  using assms by (simp add: prioritization_run_def Let_def)

lemma map_rank_enumerate:
  "map priority_rank (map (\<lambda>(rank, scored). make_recommendation m rank scored) (enumerate n ys))
   = [n ..< n + length ys]"
proof -
  have "map priority_rank (map (\<lambda>(rank, scored). make_recommendation m rank scored) (enumerate n ys))
        = map fst (enumerate n ys)"
    by (simp add: split_def comp_def)
  then show ?thesis by simp
qed

lemma map_issue_id_enumerate:
  "map issue_id (map (\<lambda>(rank, scored). make_recommendation m rank scored) (enumerate n ys))
   = map (\<lambda>x. rule_id (fst x)) ys"
  by (induction ys arbitrary: n) simp_all

lemma scored_issues_length: "length (scored_issues sd) = length (collect_issues sd)"
  by (simp add: scored_issues_def py_sort_reverse_length)

lemma tie_score: "calculate_priority_score (tie_issue r) = 46.25"
  unfolding calculate_priority_score_def tie_issue_def
  apply (simp add: TRAFFIC_POTENTIAL_BY_SEVERITY_def PRIORITY_SEVERITY_WEIGHTS_def)
  by code_simp

lemma tie_rule_id: "rule_id (tie_issue r) = r"
  by (simp add: tie_issue_def)

lemma tie_collect:
  "collect_issues tie_site = [tie_issue ''tech-redirect-chains'', tie_issue ''onpage-thin-content'']"
  by (simp add: collect_issues_def tie_site_def tie_result_def no_settings_def example_site_def)

lemma tie_scored:
  "scored_issues tie_site =
     [(tie_issue ''tech-redirect-chains'', 46.25), (tie_issue ''onpage-thin-content'', 46.25)]"
  by (simp add: scored_issues_def tie_collect tie_score py_sort_reverse_def)

text \<open>
  C5, as stated, fails. Two issues with the same priority score (46.25) are collected
  in the order \<open>tech-redirect-chains\<close>, \<open>onpage-thin-content\<close>. They are ranked 1 and 2
  in that order: the scores are equal, not strictly descending, and the rule ids are
  not in lexicographic order.
\<close>

theorem prioritization_tie_counterexample:
  "map issue_id (recommendations (prioritization_run tie_site))
     = [''tech-redirect-chains'', ''onpage-thin-content'']
   \<and> map priority_rank (recommendations (prioritization_run tie_site)) = [1, 2]
   \<and> calculate_priority_score (tie_issue ''tech-redirect-chains'')
     = calculate_priority_score (tie_issue ''onpage-thin-content'')
   \<and> str_lt ''onpage-thin-content'' ''tech-redirect-chains''"
  by (simp add: prioritization_run_def tie_collect tie_scored tie_score enumerate_eq_zip
        Let_def tie_rule_id)

text \<open>
  C5, amended. For a non-empty issue list the recommendations carry the ranks
  \<open>1..N\<close> with \<open>N = min(50, number of issues)\<close>, given in the order of the sorted issue
  list; that list is a permutation of the collected issues in non-increasing order of
  priority score, and issues of equal priority score keep the order in which they were
  collected (the sort is stable; the rule id plays no part).
\<close>

theorem prioritization_ranks_stable:
  assumes "collect_issues sd \<noteq> []"
  shows "map priority_rank (recommendations (prioritization_run sd))
           = [1 ..< Suc (min 50 (length (collect_issues sd)))]
       \<and> map issue_id (recommendations (prioritization_run sd))
           = map (\<lambda>x. rule_id (fst x)) (take 50 (scored_issues sd))
       \<and> sorted (rev (map snd (scored_issues sd)))
       \<and> mset (scored_issues sd)
           = mset (map (\<lambda>issue. (issue, calculate_priority_score issue)) (collect_issues sd))
       \<and> filter (\<lambda>x. snd x = v) (scored_issues sd)
           = filter (\<lambda>x. snd x = v)
               (map (\<lambda>issue. (issue, calculate_priority_score issue)) (collect_issues sd))"
proof -
  have nonempty: "collect_issues sd \<noteq> []" by (rule assms)
  have ranks: "map priority_rank (recommendations (prioritization_run sd))
                 = [1 ..< Suc (min 50 (length (collect_issues sd)))]"
    using nonempty
    by (simp add: recommendations_nonempty map_rank_enumerate scored_issues_length
          min.commute del: map_map)
  have ids: "map issue_id (recommendations (prioritization_run sd))
               = map (\<lambda>x. rule_id (fst x)) (take 50 (scored_issues sd))"
    using nonempty
    by (simp add: recommendations_nonempty map_issue_id_enumerate del: map_map)
  have desc: "sorted (rev (map snd (scored_issues sd)))"
    unfolding scored_issues_def by (rule py_sort_reverse_sorted)
  have perm: "mset (scored_issues sd)
                = mset (map (\<lambda>issue. (issue, calculate_priority_score issue)) (collect_issues sd))"
    unfolding scored_issues_def by (rule py_sort_reverse_mset)
  have stable: "filter (\<lambda>x. snd x = v) (scored_issues sd)
                  = filter (\<lambda>x. snd x = v)
                      (map (\<lambda>issue. (issue, calculate_priority_score issue)) (collect_issues sd))"
    unfolding scored_issues_def by (rule py_sort_reverse_stable)
  from ranks ids desc perm stable show ?thesis by blast
qed

theorem prioritization_ranks_stable_witness:
  "collect_issues tie_site \<noteq> []
   \<and> map priority_rank (recommendations (prioritization_run tie_site)) = [1, 2]
   \<and> map issue_id (recommendations (prioritization_run tie_site))
       = [''tech-redirect-chains'', ''onpage-thin-content'']
   \<and> sorted (rev (map snd (scored_issues tie_site)))"
proof -
  have h: "collect_issues tie_site \<noteq> []" by (simp add: tie_collect)
  show ?thesis
    using h prioritization_ranks_stable [OF h, of 0]
    by (simp add: tie_collect tie_scored tie_rule_id)
qed

subsection \<open>URL normalization\<close>

text \<open>
  C6. Normalization is not idempotent on the code. The deny-list of extensions is
  tested on the path before its trailing slashes are removed, so
  \<open>https://example.com/doc.pdf/\<close> is normalized to \<open>https://example.com/doc.pdf\<close>,
  which the next call rejects. The input is stripped of white space before the
  fragment is dropped, so \<open>https://example.com/a #f\<close> is normalized to a URL that ends
  in a space, which the next call changes again.
\<close>

theorem normalize_url_not_idempotent:
  "normalize_url L ''https://example.com/doc.pdf/'' ''https://example.com''
     = Some ''https://example.com/doc.pdf''
   \<and> normalize_url L ''https://example.com/doc.pdf'' ''https://example.com'' = None
   \<and> normalize_url L ''https://example.com/a #f'' ''https://example.com''
     = Some ''https://example.com/a ''
   \<and> normalize_url L ''https://example.com/a '' ''https://example.com''
     = Some ''https://example.com/a''"
  by code_simp

theorem normalize_url_not_idempotent_witness:
  "normalize_url example_lib ''https://example.com/doc.pdf/'' ''https://example.com''
     = Some ''https://example.com/doc.pdf''
   \<and> normalize_url example_lib ''https://example.com/doc.pdf'' ''https://example.com'' = None"
  using normalize_url_not_idempotent [of example_lib] by simp

subsection \<open>Robots handler\<close>

lemma new_RobotFileParser_flags:
  "new_RobotFileParser L u = Inr p
   \<Longrightarrow> \<not> disallow_all p \<and> \<not> allow_all p \<and> last_checked p = 0"
  by (auto simp: new_RobotFileParser_def split: sum.splits)

lemma unparsed_blocks:
  "\<not> disallow_all p \<Longrightarrow> \<not> allow_all p \<Longrightarrow> last_checked p = 0
   \<Longrightarrow> rfp_can_fetch L p ua u = Inr False"
  by (simp add: rfp_can_fetch_def)

lemma example_robots_parser:
  "new_RobotFileParser example_lib ''https://example.com/robots.txt'' = Inr unparsed_robots"
  unfolding unparsed_robots_def by code_simp

lemma example_default_parser: "new_RobotFileParser example_lib [] = Inr default_robots"
  unfolding default_robots_def by code_simp

lemma example_fetch_404:
  "fetch_and_parse example_lib 1000 get404 Map.empty ''example.com''
     = Inr [''example.com'' \<mapsto> unparsed_robots]"
  by (simp add: fetch_and_parse_def example_robots_parser example_default_parser get404_def)

lemma example_root_parsed:
  "urlparse example_lib ''https://example.com/'' []
     = Inr \<lparr> scheme = ''https'', netloc = ''example.com'', path = ''/'', params = [],
             query = [], fragment = [] \<rparr>"
  by code_simp

text \<open>
  C2. On the code the opposite of the claim holds. When the request for robots.txt
  raises, the handler stores \<open>RobotFileParser()\<close>; when the status is not 200 it stores
  the parser it never fed. Neither has been through \<open>parse\<close>, so \<open>last_checked\<close> is 0
  and the library's \<open>can_fetch\<close> answers false for every URL of the host and every
  user agent.
\<close>

theorem robots_fetch_failure_blocks_all:
  assumes fail: "session_get (''https://'' @ d @ ''/robots.txt'') = Inl e
                 \<or> (\<exists>r. session_get (''https://'' @ d @ ''/robots.txt'') = Inr r
                          \<and> Response.status_code r \<noteq> 200)"
      and fp: "fetch_and_parse L now session_get parsers d = Inr parsers'"
      and up: "urlparse L u [] = Inr parsed"
      and hst: "py_lower (netloc parsed) = d"
  shows "can_fetch L parsers' u ua = Inr False"
proof -
  from fp obtain parser fresh where
    p: "new_RobotFileParser L (''https://'' @ d @ ''/robots.txt'') = Inr parser"
    and f: "new_RobotFileParser L [] = Inr fresh"
    by (auto simp: fetch_and_parse_def Let_def split: sum.splits)
  from fail fp p f have "parsers' d = Some parser \<or> parsers' d = Some fresh"
    by (auto simp: fetch_and_parse_def Let_def split: sum.splits)
  then obtain q where q: "parsers' d = Some q"
    and flags: "\<not> disallow_all q \<and> \<not> allow_all q \<and> last_checked q = 0"
    using new_RobotFileParser_flags [OF p] new_RobotFileParser_flags [OF f] by auto
  show ?thesis
    using up hst q flags by (simp add: can_fetch_def unparsed_blocks)
qed

theorem robots_fetch_failure_blocks_all_witness:
  "get404 (''https://'' @ ''example.com'' @ ''/robots.txt'')
     = Inr \<lparr> Response.status_code = 404, resp_text = [] \<rparr>
   \<and> fetch_and_parse example_lib 1000 get404 Map.empty ''example.com''
     = Inr [''example.com'' \<mapsto> unparsed_robots]
   \<and> can_fetch example_lib [''example.com'' \<mapsto> unparsed_robots] ''https://example.com/''
        CRAWLER_USER_AGENT = Inr False"
proof -
  have h1: "get404 (''https://'' @ ''example.com'' @ ''/robots.txt'') = Inl NetworkError
            \<or> (\<exists>r. get404 (''https://'' @ ''example.com'' @ ''/robots.txt'') = Inr r
                     \<and> Response.status_code r \<noteq> 200)"
    by (simp add: get404_def)
  have h2: "fetch_and_parse example_lib 1000 get404 Map.empty ''example.com''
              = Inr [''example.com'' \<mapsto> unparsed_robots]"
    by (rule example_fetch_404)
  have h4: "py_lower (netloc \<lparr> scheme = ''https'', netloc = ''example.com'', path = ''/'',
                             params = [], query = [], fragment = [] \<rparr>) = ''example.com''"
    by code_simp
  show ?thesis
    using robots_fetch_failure_blocks_all [OF h1 h2 example_root_parsed h4, of CRAWLER_USER_AGENT] h2
    by (simp add: get404_def)
qed

subsection \<open>On-page impact scores\<close>

lemma coverage_nonneg: "0 \<le> coverage a t"
  by (simp add: coverage_def)

lemma claimed_severity_mult_nonneg: "0 \<le> claimed_severity_mult s"
  by (cases s) (simp_all add: claimed_severity_mult_def)

lemma severity_multipliers_eq: "severity_multipliers s = claimed_severity_mult s"
  by (cases s) (simp_all add: claimed_severity_mult_def severity_multipliers_def)

lemma pow2_pos: "0 < pow2 e"
  by (simp add: pow2_def)

lemma round_half_even_nonneg: "0 \<le> y \<Longrightarrow> 0 \<le> round_half_even y"
  by (auto simp: round_half_even_def Let_def)

lemma fl_nonneg: "0 \<le> x \<Longrightarrow> 0 \<le> fl x"
proof (cases "x = 0")
  case True
  then show ?thesis by (simp add: fl_def)
next
  case False
  assume "0 \<le> x"
  with False have x: "0 < x" by simp
  define ulp where "ulp = pow2 (float_exponent \<bar>x\<bar> - 52)"
  have u: "0 < ulp" unfolding ulp_def by (rule pow2_pos)
  with x have "0 \<le> \<bar>x\<bar> / ulp" by simp
  then have "0 \<le> round_half_even (\<bar>x\<bar> / ulp)" by (rule round_half_even_nonneg)
  with u x show ?thesis
    unfolding fl_def Let_def ulp_def [symmetric] using False by simp
qed

lemma impact_formula:
  assumes "0 \<le> base"
  shows "calculate_impact_score sev a t base = double_impact base sev a t"
proof -
  define c where "c = min 1 (fl (of_nat a / of_nat (max 1 t)))"
  have "0 \<le> fl (of_nat a / of_nat (max 1 t))" by (rule fl_nonneg) simp
  then have c: "0 \<le> c" by (simp add: c_def)
  have "0 \<le> fl (7 / 10)" by (rule fl_nonneg) simp
  with c have "0 \<le> fl (7 / 10) * c" by (rule mult_nonneg_nonneg [rotated])
  then have "0 \<le> fl (fl (7 / 10) * c)" by (rule fl_nonneg)
  moreover have "0 \<le> fl (3 / 10)" by (rule fl_nonneg) simp
  ultimately have "0 \<le> fl (3 / 10) + fl (fl (7 / 10) * c)"
    by (rule add_nonneg_nonneg [rotated])
  then have s: "0 \<le> fl (fl (3 / 10) + fl (fl (7 / 10) * c))" by (rule fl_nonneg)
  have "0 \<le> base * claimed_severity_mult sev"
    using assms claimed_severity_mult_nonneg [of sev] by (rule mult_nonneg_nonneg)
  then have "0 \<le> fl (base * claimed_severity_mult sev)" by (rule fl_nonneg)
  then have "0 \<le> fl (base * claimed_severity_mult sev)
                  * fl (fl (3 / 10) + fl (fl (7 / 10) * c))"
    using s by (rule mult_nonneg_nonneg)
  then have "0 \<le> fl (fl (base * claimed_severity_mult sev)
                      * fl (fl (3 / 10) + fl (fl (7 / 10) * c)))"
    by (rule fl_nonneg)
  then show ?thesis
    unfolding calculate_impact_score_def double_impact_def clamp_def Let_def
      severity_multipliers_eq c_def
    by (simp add: max_def min_def)
qed

lemma emit_mem: "issue \<in> set (emit xs i) \<Longrightarrow> issue = i"
  by (simp add: emit_def split: if_splits)

lemma onpage_issue_fields [simp]:
  "rule_id (onpage_issue rid ttl d sev xs imp rec doc md) = rid"
  "severity (onpage_issue rid ttl d sev xs imp rec doc md) = sev"
  "affected_count (onpage_issue rid ttl d sev xs imp rec doc md) = length xs"
  "impact_score (onpage_issue rid ttl d sev xs imp rec doc md) = imp"
  by (simp_all add: onpage_issue_def)

lemma onpage_issue_impact:
  assumes "issue \<in> set (emit ys (onpage_issue rid ttl d sev xs
                              (calculate_impact_score sev (length xs) t base) rec doc md))"
      and "onpage_rule_base rid = base" and "0 \<le> base"
  shows "impact_score issue
           = double_impact (onpage_rule_base (rule_id issue)) (severity issue)
               (affected_count issue) t"
  using emit_mem [OF assms(1)] assms(2,3) by (simp add: impact_formula)

lemma uppercase_issue:
  assumes "issue \<in> set (emit ys (onpage_issue rid ttl d sev xs imp rec doc md))"
  shows "rule_id issue = rid"
  using emit_mem [OF assms] by simp

lemma onpage_issues_impact:
  assumes "issue \<in> set (onpage_issues acc ps t tm)"
      and "rule_id issue \<noteq> ''onpage-uppercase-urls''"
  shows "impact_score issue
           = double_impact (onpage_rule_base (rule_id issue)) (severity issue)
               (affected_count issue) t"
proof -
  note base = onpage_rule_base_def
  from assms(1) show ?thesis
    unfolding onpage_issues_def Let_def set_append Un_iff
  proof (elim disjE)
    assume "issue \<in> set (emit (uppercase_urls acc)
      (onpage_issue ''onpage-uppercase-urls'' ''URLs containing uppercase characters''
              (str_nat (length (uppercase_urls acc))
                 @ '' pages have uppercase letters in their URL paths.'')
              LOW (uppercase_urls acc)
              20.0
              ''Use only lowercase URLs. Redirect uppercase variants to lowercase equivalents.''
              [] []))"
    from uppercase_issue [OF this] assms(2) show ?thesis by simp
  qed (erule onpage_issue_impact, simp add: base, simp)+
qed

lemma onpage_run_issues:
  assumes "onpage_run L sd = Inr r"
  shows "\<exists>acc ps tm. issues r = onpage_issues acc ps (pages_analyzed r) tm"
proof -
  define t where "t = max 1 (length (filter (\<lambda>p. PageData.status_code p = 200
                            \<and> py_in_str ''text/html'' (content_type p)) (pages sd)))"
  from assms obtain ps' acc tm where "issues r = onpage_issues acc ps' t tm"
    and "pages_analyzed r = t"
    unfolding onpage_run_def Let_def t_def [symmetric]
    by (auto split: sum.splits prod.splits)
  then show ?thesis by auto
qed


lemma ex_url_about: "urlparse example_lib ''https://example.com/About'' []
     = Inr \<lparr> scheme = ''https'', netloc = ''example.com'', path = ''/About'',
             params = [], query = [], fragment = [] \<rparr>"
  by code_simp
lemma ex_strip_about: "py_strip ''About us'' = ''About us''"
  by code_simp
lemma ex_words: "py_split_ws ''hello world'' = [''hello'', ''world'']"
  by code_simp
lemma ex_lower_about: "py_lower ''/About'' = ''/about''"
  by code_simp
lemma ex_str_two: "str_nat (Suc (Suc 0)) = ''2''"
  by code_simp

lemma ex_url_b: "urlparse example_lib ''https://example.com/b'' []
     = Inr \<lparr> scheme = ''https'', netloc = ''example.com'', path = ''/b'',
             params = [], query = [], fragment = [] \<rparr>"
  by code_simp
lemma ex_url_c: "urlparse example_lib ''https://example.com/c'' []
     = Inr \<lparr> scheme = ''https'', netloc = ''example.com'', path = ''/c'',
             params = [], query = [], fragment = [] \<rparr>"
  by code_simp
lemma ex_strip_contact: "py_strip ''Contact'' = ''Contact''"
  by code_simp
lemma ex_lower_bc: "py_lower ''/b'' = ''/b''" "py_lower ''/c'' = ''/c''"
  by code_simp+
lemma ex_strip_empty: "py_strip [] = []"
  by code_simp
lemma ex_content_type: "py_in_str ''text/html'' ''text/html; charset=utf-8''"
  by code_simp

lemma html_page_sel [simp]:
  "PageData.url (html_page u t) = u" "html (html_page u t) = ''<html></html>''"
  "text_content (html_page u t) = ''hello world''"
  "meta (html_page u t) ''title'' = t" "meta (html_page u t) ''description'' = None"
  "PageData.status_code (html_page u t) = 200"
  "content_type (html_page u t) = ''text/html; charset=utf-8''"
  by (simp_all add: html_page_def split: option.splits)

lemma lib_soup [simp]: "BeautifulSoup example_lib h = \<lparr> h1_tags = 0, imgs = [] \<rparr>"
  by (simp add: example_lib_def)

lemma ex_int_two: "py_int_of_str ''2'' = Inr 2"
  by code_simp

lemma counted_sel [simp]:
  "PageData.url (counted p) = PageData.url p"
  "meta (counted p) ''word_count'' = Some ''2''"
  "meta (counted p) ''title'' = meta p ''title''"
  "meta (counted p) ''description'' = meta p ''description''"
  by (simp_all add: counted_def)

lemma example_page_step:
  assumes "urlparse example_lib u [] = Inr parsed" and "query parsed = []"
    and "py_strip (case t of None \<Rightarrow> [] | Some x \<Rightarrow> x) = ttl"
  shows "\<exists>acc'. onpage_page example_lib (html_page u t) acc = Inr (counted (html_page u t), acc')
     \<and> titles acc' = app_if (ttl \<noteq> []) ttl (titles acc)
     \<and> meta_descs acc' = meta_descs acc
     \<and> missing_title acc' = app_if (ttl = []) (counted (html_page u t)) (missing_title acc)
     \<and> short_title acc' = app_if (ttl \<noteq> [] \<and> length ttl < 30) (counted (html_page u t)) (short_title acc)
     \<and> long_title acc' = app_if (ttl \<noteq> [] \<and> \<not> length ttl < 30 \<and> length ttl > 60)
                              (counted (html_page u t)) (long_title acc)
     \<and> missing_meta acc' = missing_meta acc @ [counted (html_page u t)]
     \<and> missing_h1 acc' = missing_h1 acc @ [counted (html_page u t)]
     \<and> multiple_h1 acc' = multiple_h1 acc
     \<and> missing_alt acc' = missing_alt acc
     \<and> thin_content acc' = thin_content acc @ [counted (html_page u t)]
     \<and> long_urls acc' = app_if (length u > 115) (counted (html_page u t)) (long_urls acc)
     \<and> uppercase_urls acc' = app_if (ParseResult.path parsed \<noteq> py_lower (ParseResult.path parsed))
                                  (counted (html_page u t)) (uppercase_urls acc)"
  using assms
  by (simp add: onpage_page_def ex_words ex_str_two ex_strip_empty Let_def counted_def app_if_def
        TITLE_MIN_LENGTH_def TITLE_MAX_LENGTH_def MIN_WORD_COUNT_def URL_MAX_LENGTH_def
      del: str_nat.simps)


lemma ex_impact_missing_title:
  "calculate_impact_score CRITICAL (Suc 0) (Suc (Suc (Suc 0))) 95 = fl (5067 / 100)"
  by code_simp
lemma ex_impact_short_title:
  "calculate_impact_score MEDIUM (Suc 0) (Suc (Suc 0)) 55 = fl (1787 / 100)"
  by code_simp
lemma ex_fl_5067: "fl (5067 / 100) = 3565584267482235 / 70368744177664"
  by code_simp
lemma ex_fl_1787: "fl (1787 / 100) = 5029957833819423 / 281474976710656"
  by code_simp
lemma ex_fl_1788: "fl (447 / 25) = 5032772583586529 / 281474976710656"
  by code_simp
lemma ex_counter_keys: "counter_keys [''About us'', ''Contact''] = [''About us'', ''Contact'']"
  by code_simp
lemma ex_counter_keys_one: "counter_keys [''About us''] = [''About us'']"
  by code_simp

lemma upper_site_pages:
  "filter (\<lambda>p. PageData.status_code p = 200 \<and> py_in_str ''text/html'' (content_type p))
     (pages upper_site)
   = [html_page ''https://example.com/About'' (Some ''About us''),
      html_page ''https://example.com/b'' None,
      html_page ''https://example.com/c'' (Some ''Contact'')]"
  by (simp add: upper_site_def example_site_def ex_content_type)

lemma two_page_site_pages:
  "filter (\<lambda>p. PageData.status_code p = 200 \<and> py_in_str ''text/html'' (content_type p))
     (pages two_page_site)
   = [html_page ''https://example.com/About'' (Some ''About us''),
      html_page ''https://example.com/b'' None]"
  by (simp add: two_page_site_def example_site_def ex_content_type)

lemma first_pages_steps:
  "\<exists>a1 a2.
     onpage_page example_lib (html_page ''https://example.com/About'' (Some ''About us''))
        empty_lists
       = Inr (counted (html_page ''https://example.com/About'' (Some ''About us'')), a1)
   \<and> onpage_page example_lib (html_page ''https://example.com/b'' None) a1
       = Inr (counted (html_page ''https://example.com/b'' None), a2)
   \<and> titles a2 = [''About us''] \<and> meta_descs a2 = []
   \<and> missing_title a2 = [counted (html_page ''https://example.com/b'' None)]
   \<and> short_title a2 = [counted (html_page ''https://example.com/About'' (Some ''About us''))]
   \<and> long_title a2 = []
   \<and> missing_meta a2 = [counted (html_page ''https://example.com/About'' (Some ''About us'')),
                          counted (html_page ''https://example.com/b'' None)]
   \<and> missing_h1 a2 = [counted (html_page ''https://example.com/About'' (Some ''About us'')),
                        counted (html_page ''https://example.com/b'' None)]
   \<and> multiple_h1 a2 = [] \<and> missing_alt a2 = []
   \<and> thin_content a2 = [counted (html_page ''https://example.com/About'' (Some ''About us'')),
                          counted (html_page ''https://example.com/b'' None)]
   \<and> long_urls a2 = []
   \<and> uppercase_urls a2 = [counted (html_page ''https://example.com/About'' (Some ''About us''))]"
proof -
  let ?p1 = "html_page ''https://example.com/About'' (Some ''About us'')"
  let ?p2 = "html_page ''https://example.com/b'' None"
  from example_page_step [OF ex_url_about _ _, of "Some ''About us''" "''About us''" empty_lists]
  obtain a1 where s1: "onpage_page example_lib ?p1 empty_lists = Inr (counted ?p1, a1)"
    and a1: "titles a1 = [''About us'']" "meta_descs a1 = []" "missing_title a1 = []"
      "short_title a1 = [counted ?p1]" "long_title a1 = []" "missing_meta a1 = [counted ?p1]"
      "missing_h1 a1 = [counted ?p1]" "multiple_h1 a1 = []" "missing_alt a1 = []"
      "thin_content a1 = [counted ?p1]" "long_urls a1 = []" "uppercase_urls a1 = [counted ?p1]"
    by (auto simp: ex_strip_about ex_lower_about app_if_def empty_lists_def)
  from example_page_step [OF ex_url_b _ _, of None "[]" a1]
  obtain a2 where s2: "onpage_page example_lib ?p2 a1 = Inr (counted ?p2, a2)"
    and a2: "titles a2 = [''About us'']" "meta_descs a2 = []" "missing_title a2 = [counted ?p2]"
      "short_title a2 = [counted ?p1]" "long_title a2 = []"
      "missing_meta a2 = [counted ?p1, counted ?p2]"
      "missing_h1 a2 = [counted ?p1, counted ?p2]" "multiple_h1 a2 = []" "missing_alt a2 = []"
      "thin_content a2 = [counted ?p1, counted ?p2]" "long_urls a2 = []"
      "uppercase_urls a2 = [counted ?p1]"
    by (auto simp: ex_strip_empty ex_lower_bc app_if_def a1)
  from s1 s2 a2 show ?thesis by blast
qed

lemma two_page_site_issues:
  "\<exists>r. onpage_run example_lib two_page_site = Inr r \<and> pages_analyzed r = 2
     \<and> map (\<lambda>i. (rule_id i, affected_count i)) (issues r)
        = [(''onpage-missing-title'', 1), (''onpage-short-title'', 1),
           (''onpage-missing-meta-description'', 2), (''onpage-missing-h1'', 2),
           (''onpage-thin-content'', 2), (''onpage-uppercase-urls'', 1)]
     \<and> map impact_score (filter (\<lambda>i. rule_id i = ''onpage-short-title'') (issues r))
        = [fl (1787 / 100)]
     \<and> map impact_score (filter (\<lambda>i. rule_id i = ''onpage-uppercase-urls'') (issues r)) = [20]"
proof -
  let ?p1 = "html_page ''https://example.com/About'' (Some ''About us'')"
  let ?p2 = "html_page ''https://example.com/b'' None"
  from first_pages_steps obtain a1 a2
    where s1: "onpage_page example_lib ?p1 empty_lists = Inr (counted ?p1, a1)"
      and s2: "onpage_page example_lib ?p2 a1 = Inr (counted ?p2, a2)"
      and a2: "titles a2 = [''About us'']" "meta_descs a2 = []" "missing_title a2 = [counted ?p2]"
        "short_title a2 = [counted ?p1]" "long_title a2 = []"
        "missing_meta a2 = [counted ?p1, counted ?p2]"
        "missing_h1 a2 = [counted ?p1, counted ?p2]" "multiple_h1 a2 = []" "missing_alt a2 = []"
        "thin_content a2 = [counted ?p1, counted ?p2]" "long_urls a2 = []"
        "uppercase_urls a2 = [counted ?p1]"
    by blast
  have loop: "onpage_loop example_lib [?p1, ?p2] empty_lists = Inr ([counted ?p1, counted ?p2], a2)"
    by (simp add: s1 s2)
  have iss: "map (\<lambda>i. (rule_id i, affected_count i))
               (onpage_issues a2 [counted ?p1, counted ?p2] (Suc (Suc 0)) 0)
        = [(''onpage-missing-title'', 1), (''onpage-short-title'', 1),
           (''onpage-missing-meta-description'', 2), (''onpage-missing-h1'', 2),
           (''onpage-thin-content'', 2), (''onpage-uppercase-urls'', 1)]
     \<and> map impact_score (filter (\<lambda>i. rule_id i = ''onpage-short-title'')
           (onpage_issues a2 [counted ?p1, counted ?p2] (Suc (Suc 0)) 0))
        = [fl (1787 / 100)]
     \<and> map impact_score (filter (\<lambda>i. rule_id i = ''onpage-uppercase-urls'')
           (onpage_issues a2 [counted ?p1, counted ?p2] (Suc (Suc 0)) 0)) = [20]"
    unfolding onpage_issues_def Let_def a2
    by (simp add: emit_def ex_impact_short_title ex_counter_keys_one del: str_nat.simps)
  show ?thesis
    unfolding onpage_run_def Let_def two_page_site_pages loop
    using iss by (simp add: a2 ex_int_two del: str_nat.simps)
qed

lemma upper_site_issues:
  "\<exists>r. onpage_run example_lib upper_site = Inr r \<and> pages_analyzed r = 3
     \<and> map (\<lambda>i. (rule_id i, affected_count i)) (issues r)
        = [(''onpage-missing-title'', 1), (''onpage-short-title'', 2),
           (''onpage-missing-meta-description'', 3), (''onpage-missing-h1'', 3),
           (''onpage-thin-content'', 3), (''onpage-uppercase-urls'', 1)]
     \<and> map impact_score (filter (\<lambda>i. rule_id i = ''onpage-missing-title'') (issues r))
        = [fl (5067 / 100)]
     \<and> map impact_score (filter (\<lambda>i. rule_id i = ''onpage-uppercase-urls'') (issues r)) = [20]"
proof -
  let ?p1 = "html_page ''https://example.com/About'' (Some ''About us'')"
  let ?p2 = "html_page ''https://example.com/b'' None"
  let ?p3 = "html_page ''https://example.com/c'' (Some ''Contact'')"
  from first_pages_steps obtain a1 a2
    where s1: "onpage_page example_lib ?p1 empty_lists = Inr (counted ?p1, a1)"
      and s2: "onpage_page example_lib ?p2 a1 = Inr (counted ?p2, a2)"
      and a2: "titles a2 = [''About us'']" "meta_descs a2 = []" "missing_title a2 = [counted ?p2]"
        "short_title a2 = [counted ?p1]" "long_title a2 = []"
        "missing_meta a2 = [counted ?p1, counted ?p2]"
        "missing_h1 a2 = [counted ?p1, counted ?p2]" "multiple_h1 a2 = []" "missing_alt a2 = []"
        "thin_content a2 = [counted ?p1, counted ?p2]" "long_urls a2 = []"
        "uppercase_urls a2 = [counted ?p1]"
    by blast
  from example_page_step [OF ex_url_c _ _, of "Some ''Contact''" "''Contact''" a2]
  obtain a3 where s3: "onpage_page example_lib ?p3 a2 = Inr (counted ?p3, a3)"
    and a3: "titles a3 = [''About us'', ''Contact'']" "meta_descs a3 = []"
      "missing_title a3 = [counted ?p2]"
      "short_title a3 = [counted ?p1, counted ?p3]" "long_title a3 = []"
      "missing_meta a3 = [counted ?p1, counted ?p2, counted ?p3]"
      "missing_h1 a3 = [counted ?p1, counted ?p2, counted ?p3]" "multiple_h1 a3 = []"
      "missing_alt a3 = []"
      "thin_content a3 = [counted ?p1, counted ?p2, counted ?p3]" "long_urls a3 = []"
      "uppercase_urls a3 = [counted ?p1]"
    by (auto simp: ex_strip_contact ex_lower_bc app_if_def a2)
  have loop: "onpage_loop example_lib [?p1, ?p2, ?p3] empty_lists
                = Inr ([counted ?p1, counted ?p2, counted ?p3], a3)"
    by (simp add: s1 s2 s3)
  have iss: "map (\<lambda>i. (rule_id i, affected_count i))
               (onpage_issues a3 [counted ?p1, counted ?p2, counted ?p3] (Suc (Suc (Suc 0))) 0)
        = [(''onpage-missing-title'', 1), (''onpage-short-title'', 2),
           (''onpage-missing-meta-description'', 3), (''onpage-missing-h1'', 3),
           (''onpage-thin-content'', 3), (''onpage-uppercase-urls'', 1)]
     \<and> map impact_score (filter (\<lambda>i. rule_id i = ''onpage-missing-title'')
           (onpage_issues a3 [counted ?p1, counted ?p2, counted ?p3] (Suc (Suc (Suc 0))) 0))
        = [fl (5067 / 100)]
     \<and> map impact_score (filter (\<lambda>i. rule_id i = ''onpage-uppercase-urls'')
           (onpage_issues a3 [counted ?p1, counted ?p2, counted ?p3] (Suc (Suc (Suc 0))) 0)) = [20]"
    unfolding onpage_issues_def Let_def a3
    by (simp add: emit_def ex_impact_missing_title ex_counter_keys del: str_nat.simps)
  show ?thesis
    unfolding onpage_run_def Let_def upper_site_pages loop
    using iss by (simp add: a3 ex_int_two del: str_nat.simps)
qed

text \<open>
  C4, as stated, fails in three ways. On a site of three HTML pages, one of them without
  a title, \<open>onpage-missing-title\<close> has the impact score 50.67 (the double of that
  name), where the formula gives 152/3. On the first two of these pages, one with a
  short title, \<open>onpage-short-title\<close> has the impact score 17.87, where the formula gives
  17.875, which rounds to 17.88: the product is evaluated in binary64 arithmetic and is
  a little less than 17.875. And \<open>onpage-uppercase-urls\<close> has the impact score 20 on
  both sites, with coverage 1/3 and with coverage 1/2; the one rule base for which the
  formula gives 20 at coverage 1/3 is 150, and at coverage 1/2 it gives 24.375.
\<close>

theorem onpage_impact_counterexample:
  "issue_counts (onpage_run example_lib upper_site)
     = [(''onpage-missing-title'', 1), (''onpage-short-title'', 2),
        (''onpage-missing-meta-description'', 3), (''onpage-missing-h1'', 3),
        (''onpage-thin-content'', 3), (''onpage-uppercase-urls'', 1)]
   \<and> issue_counts (onpage_run example_lib two_page_site)
     = [(''onpage-missing-title'', 1), (''onpage-short-title'', 1),
        (''onpage-missing-meta-description'', 2), (''onpage-missing-h1'', 2),
        (''onpage-thin-content'', 2), (''onpage-uppercase-urls'', 1)]
   \<and> map_sum id pages_analyzed (onpage_run example_lib upper_site) = Inr 3
   \<and> map_sum id pages_analyzed (onpage_run example_lib two_page_site) = Inr 2
   \<and> impacts_of ''onpage-missing-title'' (onpage_run example_lib upper_site) = [fl (5067 / 100)]
   \<and> claimed_impact 95 CRITICAL 1 3 = 152 / 3
   \<and> fl (5067 / 100) \<noteq> 152 / 3
   \<and> impacts_of ''onpage-short-title'' (onpage_run example_lib two_page_site) = [fl (1787 / 100)]
   \<and> claimed_impact 55 MEDIUM 1 2 = 143 / 8
   \<and> py_round (143 / 8) 2 = 447 / 25
   \<and> fl (1787 / 100) \<noteq> 143 / 8
   \<and> fl (1787 / 100) \<noteq> fl (447 / 25)
   \<and> impacts_of ''onpage-uppercase-urls'' (onpage_run example_lib upper_site) = [20]
   \<and> impacts_of ''onpage-uppercase-urls'' (onpage_run example_lib two_page_site) = [20]
   \<and> claimed_impact 150 LOW 1 3 = 20
   \<and> claimed_impact 150 LOW 1 2 = 195 / 8"
proof -
  from upper_site_issues obtain r where
    r: "onpage_run example_lib upper_site = Inr r \<and> pages_analyzed r = 3
     \<and> map (\<lambda>i. (rule_id i, affected_count i)) (issues r)
        = [(''onpage-missing-title'', 1), (''onpage-short-title'', 2),
           (''onpage-missing-meta-description'', 3), (''onpage-missing-h1'', 3),
           (''onpage-thin-content'', 3), (''onpage-uppercase-urls'', 1)]
     \<and> map impact_score (filter (\<lambda>i. rule_id i = ''onpage-missing-title'') (issues r))
        = [fl (5067 / 100)]
     \<and> map impact_score (filter (\<lambda>i. rule_id i = ''onpage-uppercase-urls'') (issues r)) = [20]" ..
  from two_page_site_issues obtain r2 where
    r2: "onpage_run example_lib two_page_site = Inr r2 \<and> pages_analyzed r2 = 2
     \<and> map (\<lambda>i. (rule_id i, affected_count i)) (issues r2)
        = [(''onpage-missing-title'', 1), (''onpage-short-title'', 1),
           (''onpage-missing-meta-description'', 2), (''onpage-missing-h1'', 2),
           (''onpage-thin-content'', 2), (''onpage-uppercase-urls'', 1)]
     \<and> map impact_score (filter (\<lambda>i. rule_id i = ''onpage-short-title'') (issues r2))
        = [fl (1787 / 100)]
     \<and> map impact_score (filter (\<lambda>i. rule_id i = ''onpage-uppercase-urls'') (issues r2)) = [20]" ..
  have run: "onpage_run example_lib upper_site = Inr r" using r by (rule conjunct1)
  have run2: "onpage_run example_lib two_page_site = Inr r2" using r2 by (rule conjunct1)
  have a: "claimed_impact 95 CRITICAL 1 3 = 152 / 3" "claimed_impact 55 MEDIUM 1 2 = 143 / 8"
    "claimed_impact 150 LOW 1 3 = 20" "claimed_impact 150 LOW 1 2 = 195 / 8"
    by (simp_all add: claimed_impact_def clamp_def coverage_def claimed_severity_mult_def)
  have b: "py_round (143 / 8) 2 = 447 / 25" by code_simp
  have c: "fl (5067 / 100) \<noteq> 152 / 3" "fl (1787 / 100) \<noteq> 143 / 8"
    "fl (1787 / 100) \<noteq> fl (447 / 25)"
    unfolding ex_fl_5067 ex_fl_1787 ex_fl_1788 by simp_all
  have d: "issue_counts (Inr r) = map (\<lambda>i. (rule_id i, affected_count i)) (issues r)"
    "issue_counts (Inr r2) = map (\<lambda>i. (rule_id i, affected_count i)) (issues r2)"
    "\<And>rid. impacts_of rid (Inr r) = map impact_score (filter (\<lambda>i. rule_id i = rid) (issues r))"
    "\<And>rid. impacts_of rid (Inr r2) = map impact_score (filter (\<lambda>i. rule_id i = rid) (issues r2))"
    by (simp_all add: issue_counts_def impacts_of_def)
  show ?thesis unfolding run run2 d a using r r2 b c by simp
qed

text \<open>
  C4, amended. Every issue of the on-page engine other than \<open>onpage-uppercase-urls\<close>
  has the impact score \<open>round(clamp(rule_base * severity_mult * (0.3 + 0.7 * coverage),
  0, 100), 2)\<close> evaluated in binary64 arithmetic (\<open>double_impact\<close>), where
  \<open>coverage = min(1, affected_count / max(1, total_pages))\<close>, the severity multipliers
  are 1, 0.75, 0.5, 0.25 and 0, and the rule base is the one of \<open>onpage_rule_base\<close>.
  \<open>total_pages\<close> is the result's \<open>pages_analyzed\<close>.
\<close>

theorem onpage_impact_scores:
  assumes "onpage_run L sd = Inr r"
      and "issue \<in> set (issues r)"
      and "rule_id issue \<noteq> ''onpage-uppercase-urls''"
  shows "impact_score issue
           = double_impact (onpage_rule_base (rule_id issue)) (severity issue)
               (affected_count issue) (pages_analyzed r)"
proof -
  from onpage_run_issues [OF assms(1)] obtain acc ps tm
    where "issues r = onpage_issues acc ps (pages_analyzed r) tm" by blast
  with assms(2) have "issue \<in> set (onpage_issues acc ps (pages_analyzed r) tm)" by simp
  from onpage_issues_impact [OF this assms(3)] show ?thesis .
qed

theorem onpage_impact_scores_witness:
  "(case onpage_run example_lib upper_site of
      Inl e \<Rightarrow> False
    | Inr r \<Rightarrow>
        list_all (\<lambda>issue. rule_id issue = ''onpage-uppercase-urls''
                    \<or> impact_score issue
                        = double_impact (onpage_rule_base (rule_id issue))
                            (severity issue) (affected_count issue) (pages_analyzed r))
                 (issues r))"
proof -
  from upper_site_issues obtain r where
    r: "onpage_run example_lib upper_site = Inr r \<and> pages_analyzed r = 3
     \<and> map (\<lambda>i. (rule_id i, affected_count i)) (issues r)
        = [(''onpage-missing-title'', 1), (''onpage-short-title'', 2),
           (''onpage-missing-meta-description'', 3), (''onpage-missing-h1'', 3),
           (''onpage-thin-content'', 3), (''onpage-uppercase-urls'', 1)]
     \<and> map impact_score (filter (\<lambda>i. rule_id i = ''onpage-missing-title'') (issues r))
        = [fl (5067 / 100)]
     \<and> map impact_score (filter (\<lambda>i. rule_id i = ''onpage-uppercase-urls'') (issues r)) = [20]" ..
  have run: "onpage_run example_lib upper_site = Inr r" using r by (rule conjunct1)
  have "\<forall>issue \<in> set (issues r). rule_id issue = ''onpage-uppercase-urls''
          \<or> impact_score issue
              = double_impact (onpage_rule_base (rule_id issue))
                  (severity issue) (affected_count issue) (pages_analyzed r)"
    using onpage_impact_scores [OF run] by blast
  then show ?thesis unfolding run by (simp add: list_all_iff)
qed

subsection \<open>Rule engine\<close>

lemma py_eq_None_right: "py_eq x PNone = (x = PNone)"
  by (cases x) (simp_all add: num_eq_def num_of_def)

lemma list_ex_py_eq_None: "list_ex (\<lambda>x. py_eq x PNone) xs = (PNone \<in> set xs)"
  by (simp add: list_ex_iff py_eq_None_right)

lemma contains_None:
  "py_contains b PNone =
     (case b of PList xs \<Rightarrow> Inr (PNone \<in> set xs) | PDict d \<Rightarrow> Inr False | _ \<Rightarrow> Inl TypeError)"
  by (cases b) (simp_all add: py_contains_def list_ex_py_eq_None)

lemma null_operator:
  "(case OPERATORS n of
      None \<Rightarrow> Inr False
    | Some f \<Rightarrow>
       (case f L PNone b of
          Inr r \<Rightarrow> Inr r
        | Inl e \<Rightarrow> if e = TypeError \<or> e = AttributeError then Inr False else Inl e))
   = Inr (null_operand_result n b)"
  unfolding OPERATORS_def null_operand_result_def
  by (cases b) (simp_all add: truthy_def contains_None negate_def)

lemma untitled_null:
  "apply_transform L (get_nested_value untitled_page (field (null_condition n b)))
     (transform (null_condition n b)) = PNone"
  by (simp add: null_condition_def untitled_page_def get_nested_value_def apply_transform_def
        TRANSFORMS_def)

lemma null_condition_eval:
  "evaluate_condition L (null_condition n b) untitled_page = Inr (null_operand_result n b)"
proof -
  have sel: "operator (null_condition n b) = n" "value' (null_condition n b) = b"
    by (simp_all add: null_condition_def)
  show ?thesis
    unfolding evaluate_condition_def Let_def untitled_null sel by (rule null_operator)
qed

text \<open>
  C1, as stated, fails for four operators. With a null left operand, \<open>eq\<close> against a
  null value, \<open>ne\<close> against 5, \<open>in\<close> against the list \<open>[null]\<close> and \<open>not_in\<close> against
  the list \<open>[1]\<close> all return true.
\<close>

theorem null_operand_counterexample:
  "evaluate_condition example_lib (null_condition ''eq'' PNone) untitled_page = Inr True
   \<and> evaluate_condition example_lib (null_condition ''ne'' (PInt 5)) untitled_page = Inr True
   \<and> evaluate_condition example_lib (null_condition ''in'' (PList [PNone])) untitled_page = Inr True
   \<and> evaluate_condition example_lib (null_condition ''not_in'' (PList [PInt 1])) untitled_page
       = Inr True"
  by (simp add: null_condition_eval null_operand_result_def truthy_def)

text \<open>
  C1, amended. When the left operand is null, \<open>evaluate_condition\<close> returns the value
  of \<open>null_operand_result\<close>: true for \<open>not_contains\<close>, \<open>not_matches\<close>, \<open>not_exists\<close> and
  \<open>length_lt\<close>; for \<open>eq\<close> true exactly when the condition value is null, for \<open>ne\<close>
  true exactly when it is not; for \<open>in\<close> true exactly when the value is a list that
  holds null; for \<open>not_in\<close> true exactly when the value is falsy, a list without null
  or a non-empty dictionary; false for every other operator, known or not.
\<close>

theorem null_operand_results:
  assumes "apply_transform L (get_nested_value page_data (field c)) (transform c) = PNone"
  shows "evaluate_condition L c page_data
           = Inr (null_operand_result (operator c) (value' c))"
  unfolding evaluate_condition_def Let_def assms by (rule null_operator)

theorem null_operand_results_witness:
  "apply_transform example_lib
      (get_nested_value untitled_page (field (null_condition ''length_lt'' (PInt 10))))
      (transform (null_condition ''length_lt'' (PInt 10))) = PNone
   \<and> evaluate_condition example_lib (null_condition ''length_lt'' (PInt 10)) untitled_page
       = Inr True
   \<and> evaluate_condition example_lib (null_condition ''contains'' (PStr ''a'')) untitled_page
       = Inr False"
  using null_operand_results [OF untitled_null, of example_lib "''length_lt''" "PInt 10"]
        null_operand_results [OF untitled_null, of example_lib "''contains''" "PStr ''a''"]
        untitled_null [of example_lib "''length_lt''" "PInt 10"]
  by (simp add: null_operand_result_def null_condition_def)

lemma titled_value:
  "apply_transform L (get_nested_value titled_page (field (regex_condition pat)))
     (transform (regex_condition pat)) = PStr ''Home''"
  by (simp add: regex_condition_def titled_page_def get_nested_value_def apply_transform_def)

text \<open>
  C7. \<open>evaluate_condition\<close> catches \<open>TypeError\<close> and \<open>AttributeError\<close> only. When the
  regular expression library rejects the pattern of a \<open>matches\<close> condition
  (\<open>re.error\<close>, as for the pattern of one opening parenthesis), the exception leaves
  \<open>evaluate_condition\<close> and \<open>evaluate_rule\<close>.
\<close>

theorem invalid_regex_raises:
  assumes "re_search L pat ''Home'' = Inl ReError"
  shows "evaluate_condition L (regex_condition pat) titled_page = Inl ReError
       \<and> evaluate_rule L \<lparr> conditions = [regex_condition pat], condition_logic = ''AND'' \<rparr>
            titled_page = Inl ReError"
proof -
  have c: "evaluate_condition L (regex_condition pat) titled_page = Inl ReError"
    unfolding evaluate_condition_def Let_def titled_value
    using assms by (simp add: regex_condition_def OPERATORS_def truthy_def py_str_def)
  then show ?thesis by (simp add: evaluate_rule_def)
qed

theorem invalid_regex_raises_witness:
  "re_search example_lib ''('' ''Home'' = Inl ReError
   \<and> evaluate_condition example_lib (regex_condition ''('') titled_page = Inl ReError
   \<and> evaluate_rule example_lib \<lparr> conditions = [regex_condition ''(''], condition_logic = ''AND'' \<rparr>
        titled_page = Inl ReError"
proof -
  have h: "re_search example_lib ''('' ''Home'' = Inl ReError"
    by (simp add: example_lib_def)
  show ?thesis using h invalid_regex_raises [OF h] by simp
qed

subsection \<open>Sitemap parser\<close>

lemma fetch_sitemap_Suc:
  "fetch_sitemap (Suc limit) F G level u =
     (urlset_locs F G u
        @ concat (map fst (map (fetch_sitemap limit F G (Suc level)) (index_locs F G u))),
      (level, u)
        # concat (map snd (map (fetch_sitemap limit F G (Suc level)) (index_locs F G u))))"
  by (simp add: index_locs_def urlset_locs_def Let_def comp_def split: sum.splits)

lemma fetch_sitemap_levels:
  "(l, v) \<in> set (snd (fetch_sitemap limit F G level u)) \<Longrightarrow> level \<le> l \<and> l < level + limit"
proof (induction limit arbitrary: level u)
  case 0
  then show ?case by simp
next
  case (Suc limit)
  from Suc.prems
  have "(l, v) = (level, u)
        \<or> (\<exists>w\<in>set (index_locs F G u). (l, v) \<in> set (snd (fetch_sitemap limit F G (Suc level) w)))"
    unfolding fetch_sitemap_Suc by auto
  then show ?case
  proof
    assume "(l, v) = (level, u)"
    then show ?case by simp
  next
    assume "\<exists>w\<in>set (index_locs F G u). (l, v) \<in> set (snd (fetch_sitemap limit F G (Suc level) w))"
    then obtain w where "(l, v) \<in> set (snd (fetch_sitemap limit F G (Suc level) w))" by blast
    from Suc.IH [OF this] show ?case by simp
  qed
qed

lemma fetch_sitemap_follows:
  "k < limit \<Longrightarrow> v \<in> set (sitemaps_below F G k u)
     \<Longrightarrow> (level + k, v) \<in> set (snd (fetch_sitemap limit F G level u))
         \<and> set (urlset_locs F G v) \<subseteq> set (fst (fetch_sitemap limit F G level u))"
proof (induction k arbitrary: limit level u)
  case 0
  then obtain n where n: "limit = Suc n" by (cases limit) auto
  from 0 show ?case unfolding n fetch_sitemap_Suc by simp
next
  case (Suc k)
  then obtain n where n: "limit = Suc n" and kn: "k < n" by (cases limit) auto
  from Suc.prems(2) obtain w where w: "w \<in> set (index_locs F G u)"
    and v: "v \<in> set (sitemaps_below F G k w)" by auto
  from Suc.IH [OF kn v, of "Suc level"]
  have a: "(level + Suc k, v) \<in> set (snd (fetch_sitemap n F G (Suc level) w))"
    and b: "set (urlset_locs F G v) \<subseteq> set (fst (fetch_sitemap n F G (Suc level) w))"
    by simp_all
  from a w have "(level + Suc k, v)
      \<in> set (concat (map snd (map (fetch_sitemap n F G (Suc level)) (index_locs F G u))))"
    by auto
  moreover from b w have "set (urlset_locs F G v)
      \<subseteq> set (concat (map fst (map (fetch_sitemap n F G (Suc level)) (index_locs F G u))))"
    by auto
  ultimately show ?case unfolding n fetch_sitemap_Suc by auto
qed

lemma fetch_sitemap_stable:
  "sitemaps_below F G (Suc d) u = [] \<Longrightarrow> d < n \<Longrightarrow> d < m
     \<Longrightarrow> fetch_sitemap n F G level u = fetch_sitemap m F G level u"
proof (induction d arbitrary: n m level u)
  case 0
  from \<open>0 < n\<close> obtain n' where n: "n = Suc n'" by (cases n) auto
  from \<open>0 < m\<close> obtain m' where m: "m = Suc m'" by (cases m) auto
  from 0(1) have "index_locs F G u = []" by simp
  then show ?case unfolding n m fetch_sitemap_Suc by simp
next
  case (Suc d)
  from \<open>Suc d < n\<close> obtain n' where n: "n = Suc n'" and dn: "d < n'" by (cases n) auto
  from \<open>Suc d < m\<close> obtain m' where m: "m = Suc m'" and dm: "d < m'" by (cases m) auto
  have "fetch_sitemap n' F G (Suc level) w = fetch_sitemap m' F G (Suc level) w"
    if "w \<in> set (index_locs F G u)" for w
  proof -
    from that Suc.prems(1) have "sitemaps_below F G (Suc d) w = []" by simp
    from Suc.IH [OF this dn dm] show ?thesis .
  qed
  then have eq: "map (fetch_sitemap n' F G (Suc level)) (index_locs F G u)
               = map (fetch_sitemap m' F G (Suc level)) (index_locs F G u)"
    by simp
  show ?case unfolding n m fetch_sitemap_Suc eq by (rule refl)
qed


lemma chain_below:
  "sitemaps_below chain_find_all_loc chain_get (Suc 4) ''https://example.com/sitemap.xml'' = []"
  by code_simp

lemma chain_level4:
  "sitemaps_below chain_find_all_loc chain_get 4 ''https://example.com/sitemap.xml''
     = [''https://example.com/s4.xml'']"
  by code_simp

lemma chain_fetch:
  "fetch_sitemap (Suc 4) chain_find_all_loc chain_get 0 ''https://example.com/sitemap.xml''
     = ([''https://example.com/deep-page''],
        [(0, ''https://example.com/sitemap.xml''), (1, ''https://example.com/s1.xml''),
         (2, ''https://example.com/s2.xml''), (3, ''https://example.com/s3.xml''),
         (4, ''https://example.com/s4.xml'')])"
  by code_simp

text \<open>
  C3, as stated, fails. In a chain of four sitemap indexes below the candidate
  \<open>/sitemap.xml\<close>, the URL sitemap at level 4 is fetched and its page URL is returned
  (here with a recursion limit of 1000 activations).
\<close>

theorem sitemap_depth_counterexample:
  "fetch_sitemap 1000 chain_find_all_loc chain_get 0 ''https://example.com/sitemap.xml''
     = ([''https://example.com/deep-page''],
        [(0, ''https://example.com/sitemap.xml''), (1, ''https://example.com/s1.xml''),
         (2, ''https://example.com/s2.xml''), (3, ''https://example.com/s3.xml''),
         (4, ''https://example.com/s4.xml'')])"
proof -
  have "fetch_sitemap 1000 chain_find_all_loc chain_get 0 ''https://example.com/sitemap.xml''
          = fetch_sitemap (Suc 4) chain_find_all_loc chain_get 0 ''https://example.com/sitemap.xml''"
    by (rule fetch_sitemap_stable [OF chain_below]) simp_all
  then show ?thesis unfolding chain_fetch .
qed

text \<open>
  C3, amended. \<open>_fetch_sitemap\<close> returns for every input, and it has no depth limit of
  3: every sitemap that is reached from \<open>u\<close> through \<open>k\<close> index references, for any \<open>k\<close>
  below the recursion limit, is fetched at level \<open>k\<close>, and the page URLs of a URL sitemap
  found there are returned. The only bound on the levels is the recursion limit. If no
  chain of index references from \<open>u\<close> is longer than \<open>d\<close> and \<open>d\<close> is below the recursion
  limit, the result does not depend on the limit and no request is more than \<open>d\<close> levels
  below \<open>u\<close>.
\<close>

theorem fetch_sitemap_follows_every_index:
  "(k < limit \<longrightarrow> v \<in> set (sitemaps_below F G k u)
      \<longrightarrow> (level + k, v) \<in> set (snd (fetch_sitemap limit F G level u))
          \<and> set (urlset_locs F G v) \<subseteq> set (fst (fetch_sitemap limit F G level u)))
   \<and> (\<forall>(l, w)\<in>set (snd (fetch_sitemap limit F G level u)). level \<le> l \<and> l < level + limit)
   \<and> (sitemaps_below F G (Suc d) u = [] \<longrightarrow> d < limit
      \<longrightarrow> fetch_sitemap limit F G level u = fetch_sitemap (Suc d) F G level u
          \<and> (\<forall>(l, w)\<in>set (snd (fetch_sitemap limit F G level u)). l \<le> level + d))"
proof (intro conjI impI)
  assume "k < limit" "v \<in> set (sitemaps_below F G k u)"
  from fetch_sitemap_follows [OF this]
  show "(level + k, v) \<in> set (snd (fetch_sitemap limit F G level u))"
    and "set (urlset_locs F G v) \<subseteq> set (fst (fetch_sitemap limit F G level u))"
    by simp_all
next
  show "\<forall>(l, w)\<in>set (snd (fetch_sitemap limit F G level u)). level \<le> l \<and> l < level + limit"
  proof (intro ballI, clarify)
    fix l w assume "(l, w) \<in> set (snd (fetch_sitemap limit F G level u))"
    from fetch_sitemap_levels [OF this] show "level \<le> l \<and> l < level + limit" .
  qed
next
  assume a: "sitemaps_below F G (Suc d) u = []" "d < limit"
  from fetch_sitemap_stable [OF a(1) a(2), of "Suc d"]
  show e: "fetch_sitemap limit F G level u = fetch_sitemap (Suc d) F G level u" by simp
  show "\<forall>(l, w)\<in>set (snd (fetch_sitemap limit F G level u)). l \<le> level + d"
    unfolding e
  proof (intro ballI, clarify)
    fix l w assume "(l, w) \<in> set (snd (fetch_sitemap (Suc d) F G level u))"
    from fetch_sitemap_levels [OF this] show "l \<le> level + d" by simp
  qed
qed

theorem fetch_sitemap_follows_every_index_witness:
  "(4::nat) < 1000
   \<and> ''https://example.com/s4.xml''
        \<in> set (sitemaps_below chain_find_all_loc chain_get 4 ''https://example.com/sitemap.xml'')
   \<and> sitemaps_below chain_find_all_loc chain_get (Suc 4) ''https://example.com/sitemap.xml'' = []
   \<and> (0 + 4, ''https://example.com/s4.xml'')
        \<in> set (snd (fetch_sitemap 1000 chain_find_all_loc chain_get 0
                       ''https://example.com/sitemap.xml''))
   \<and> set (urlset_locs chain_find_all_loc chain_get ''https://example.com/s4.xml'')
        \<subseteq> set (fst (fetch_sitemap 1000 chain_find_all_loc chain_get 0
                         ''https://example.com/sitemap.xml''))
   \<and> fetch_sitemap 1000 chain_find_all_loc chain_get 0 ''https://example.com/sitemap.xml''
        = fetch_sitemap (Suc 4) chain_find_all_loc chain_get 0 ''https://example.com/sitemap.xml''
   \<and> list_all (\<lambda>(l, w). l \<le> 0 + 4)
        (snd (fetch_sitemap 1000 chain_find_all_loc chain_get 0
                ''https://example.com/sitemap.xml''))"
proof -
  have a: "(4::nat) < 1000" by simp
  have b: "''https://example.com/s4.xml''
        \<in> set (sitemaps_below chain_find_all_loc chain_get 4 ''https://example.com/sitemap.xml'')"
    unfolding chain_level4 by simp
  note c = chain_below
  note t = fetch_sitemap_follows_every_index
             [of 4 1000 "''https://example.com/s4.xml''" chain_find_all_loc chain_get
                 "''https://example.com/sitemap.xml''" 0 4]
  from t a b have 1: "(0 + 4, ''https://example.com/s4.xml'')
        \<in> set (snd (fetch_sitemap 1000 chain_find_all_loc chain_get 0
                       ''https://example.com/sitemap.xml''))
      \<and> set (urlset_locs chain_find_all_loc chain_get ''https://example.com/s4.xml'')
        \<subseteq> set (fst (fetch_sitemap 1000 chain_find_all_loc chain_get 0
                         ''https://example.com/sitemap.xml''))"
    by blast
  from t a c have 2: "fetch_sitemap 1000 chain_find_all_loc chain_get 0
          ''https://example.com/sitemap.xml''
        = fetch_sitemap (Suc 4) chain_find_all_loc chain_get 0 ''https://example.com/sitemap.xml''
      \<and> (\<forall>(l, w)\<in>set (snd (fetch_sitemap 1000 chain_find_all_loc chain_get 0
                               ''https://example.com/sitemap.xml'')). l \<le> 0 + 4)"
    by blast
  from 2 have 3: "list_all (\<lambda>(l, w). l \<le> 0 + 4)
        (snd (fetch_sitemap 1000 chain_find_all_loc chain_get 0
                ''https://example.com/sitemap.xml''))"
    unfolding list_all_iff by (rule conjunct2)
  from 2 have 4: "fetch_sitemap 1000 chain_find_all_loc chain_get 0
          ''https://example.com/sitemap.xml''
        = fetch_sitemap (Suc 4) chain_find_all_loc chain_get 0 ''https://example.com/sitemap.xml''"
    by (rule conjunct1)
  from a b c 1 3 4 show ?thesis by blast
qed

end
